(* ===== verification/Prelude.thy ===== *)
theory Prelude
  imports Complex_Main "HOL-Library.Word"
begin

text \<open>
  Shared vocabulary of the development. A JavaScript string is a sequence of
  UTF-16 code units, modelled as a list of \<open>16 word\<close>; \<open>js\<close> lifts an ASCII
  literal of HOL into it. The Chinese and typographic characters of the
  templates are written as code units directly. A response of the market
  data API, as the sources see it after \<open>response.json()\<close>, is one of the shapes
  of \<open>json_response\<close>. The collection \<open>template_defs\<close> gathers the definitions
  of the commentary templates, so that concrete renderings evaluate by \<open>simp\<close>.
\<close>

named_theorems template_defs "definitions of the commentary templates"

type_synonym code_unit = "16 word"
type_synonym jstr = "code_unit list"

definition js :: "string \<Rightarrow> jstr" where
  "js s = map (\<lambda>c. of_nat (of_char c)) s"

text \<open>The shapes a fetched JSON body takes in the sources: the fetch or the
  JSON parse throws, the body is \<open>null\<close>, a non-array object (the API's error
  object), or an array of records.\<close>

datatype 'a json_response =
    FetchFailed
  | JsonNull
  | JsonObject
  | JsonArray "'a list"

text \<open>\<open>xs[0]\<close> of a JavaScript array: \<open>undefined\<close> (here \<open>None\<close>) when it is empty.\<close>

definition js_index0 :: "'a list \<Rightarrow> 'a option" where
  "js_index0 xs = (case xs of [] \<Rightarrow> None | x # _ \<Rightarrow> Some x)"

lemma js_Nil [simp]: "js [] = []"
  by (simp add: js_def)

lemma js_Cons [simp]: "js (c # s) = of_nat (of_char c) # js s"
  by (simp add: js_def)

lemma js_append [simp]: "js (s @ t) = js s @ js t"
  by (simp add: js_def)

lemma length_js [simp]: "length (js s) = length s"
  by (simp add: js_def)

lemma js_index0_Nil [simp]: "js_index0 [] = None"
  and js_index0_Cons [simp]: "js_index0 (x # xs) = Some x"
  by (simp_all add: js_index0_def)

end
