(* ===== verification/JsNumber.thy ===== *)
theory JsNumber
  imports Prelude
begin

text \<open>
  JavaScript Numbers as the sources use them: a finite value, the two
  infinities and NaN. Finite values are exact reals: the rounding of IEEE
  double arithmetic and the sign of zero are not modelled (a zero is \<open>+0\<close>).
  The operations follow the ECMAScript definitions of \<open>Number::add\<close>,
  \<open>Number::multiply\<close>, \<open>Number::divide\<close>, \<open>Number::lessThan\<close>,
  \<open>Number::exponentiate\<close>, strict equality, \<open>Math.max\<close>, \<open>Math.min\<close> and
  \<open>Number.isNaN\<close>, case for case; the lemmas after them are the facts the
  component theories use.
\<close>

datatype jsnum = Num real | PosInf | NegInf | NaN

definition js_is_nan :: "jsnum \<Rightarrow> bool" where
  "js_is_nan x = (x = NaN)"

fun js_neg :: "jsnum \<Rightarrow> jsnum" where
  "js_neg (Num a) = Num (- a)"
| "js_neg PosInf = NegInf"
| "js_neg NegInf = PosInf"
| "js_neg NaN = NaN"

fun js_add :: "jsnum \<Rightarrow> jsnum \<Rightarrow> jsnum" where
  "js_add NaN _ = NaN"
| "js_add _ NaN = NaN"
| "js_add PosInf NegInf = NaN"
| "js_add NegInf PosInf = NaN"
| "js_add PosInf _ = PosInf"
| "js_add _ PosInf = PosInf"
| "js_add NegInf _ = NegInf"
| "js_add _ NegInf = NegInf"
| "js_add (Num a) (Num b) = Num (a + b)"

definition js_sub :: "jsnum \<Rightarrow> jsnum \<Rightarrow> jsnum" where
  "js_sub x y = js_add x (js_neg y)"

text \<open>The infinity whose sign is that of a finite non-zero factor.\<close>

definition inf_signed :: "real \<Rightarrow> jsnum \<Rightarrow> jsnum" where
  "inf_signed b x = (if 0 < b then x else js_neg x)"

fun js_mul :: "jsnum \<Rightarrow> jsnum \<Rightarrow> jsnum" where
  "js_mul NaN _ = NaN"
| "js_mul _ NaN = NaN"
| "js_mul PosInf (Num b) = (if b = 0 then NaN else inf_signed b PosInf)"
| "js_mul NegInf (Num b) = (if b = 0 then NaN else inf_signed b NegInf)"
| "js_mul (Num a) PosInf = (if a = 0 then NaN else inf_signed a PosInf)"
| "js_mul (Num a) NegInf = (if a = 0 then NaN else inf_signed a NegInf)"
| "js_mul PosInf PosInf = PosInf"
| "js_mul NegInf NegInf = PosInf"
| "js_mul PosInf NegInf = NegInf"
| "js_mul NegInf PosInf = NegInf"
| "js_mul (Num a) (Num b) = Num (a * b)"

fun js_div :: "jsnum \<Rightarrow> jsnum \<Rightarrow> jsnum" where
  "js_div NaN _ = NaN"
| "js_div _ NaN = NaN"
| "js_div (Num a) (Num b) =
     (if b = 0 then (if a = 0 then NaN else if 0 < a then PosInf else NegInf)
      else Num (a / b))"
| "js_div (Num a) _ = Num 0"
| "js_div PosInf (Num b) = (if b < 0 then NegInf else PosInf)"
| "js_div NegInf (Num b) = (if b < 0 then PosInf else NegInf)"
| "js_div _ _ = NaN"

text \<open>\<open>x < y\<close>: false whenever NaN takes part.\<close>

fun js_less :: "jsnum \<Rightarrow> jsnum \<Rightarrow> bool" where
  "js_less (Num a) (Num b) = (a < b)"
| "js_less NaN _ = False"
| "js_less _ NaN = False"
| "js_less PosInf _ = False"
| "js_less _ NegInf = False"
| "js_less NegInf _ = True"
| "js_less _ PosInf = True"

text \<open>\<open>x <= y\<close> is \<open>y < x\<close> negated, except that it is false with NaN.\<close>

definition js_le :: "jsnum \<Rightarrow> jsnum \<Rightarrow> bool" where
  "js_le x y = (\<not> js_is_nan x \<and> \<not> js_is_nan y \<and> \<not> js_less y x)"

text \<open>\<open>x === y\<close> on Numbers.\<close>

definition js_strict_eq :: "jsnum \<Rightarrow> jsnum \<Rightarrow> bool" where
  "js_strict_eq x y = (x \<noteq> NaN \<and> x = y)"

definition js_max :: "jsnum \<Rightarrow> jsnum \<Rightarrow> jsnum" where
  "js_max x y = (if js_is_nan x \<or> js_is_nan y then NaN else if js_less x y then y else x)"

definition js_min :: "jsnum \<Rightarrow> jsnum \<Rightarrow> jsnum" where
  "js_min x y = (if js_is_nan x \<or> js_is_nan y then NaN else if js_less y x then y else x)"

definition is_odd_integer :: "real \<Rightarrow> bool" where
  "is_odd_integer e = (of_int \<lfloor>e\<rfloor> = e \<and> odd \<lfloor>e\<rfloor>)"

text \<open>\<open>Math.pow(b, e)\<close>, following the steps of \<open>Number::exponentiate\<close>.\<close>

fun js_pow :: "jsnum \<Rightarrow> jsnum \<Rightarrow> jsnum" where
  "js_pow _ NaN = NaN"
| "js_pow b (Num e) =
     (if e = 0 then Num 1
      else case b of
        NaN \<Rightarrow> NaN
      | PosInf \<Rightarrow> (if 0 < e then PosInf else Num 0)
      | NegInf \<Rightarrow> (if 0 < e then (if is_odd_integer e then NegInf else PosInf) else Num 0)
      | Num a \<Rightarrow>
          (if a = 0 then (if 0 < e then Num 0 else PosInf)
           else if 0 < a then Num (a powr e)
           else if of_int \<lfloor>e\<rfloor> = e then Num ((-1) ^ nat \<bar>\<lfloor>e\<rfloor>\<bar> * (- a) powr e)
           else NaN))"
| "js_pow b PosInf =
     (case b of
        NaN \<Rightarrow> NaN
      | PosInf \<Rightarrow> PosInf
      | NegInf \<Rightarrow> PosInf
      | Num a \<Rightarrow> (if a = 0 then Num 0 else if 1 < \<bar>a\<bar> then PosInf
                 else if \<bar>a\<bar> = 1 then NaN else Num 0))"
| "js_pow b NegInf =
     (case b of
        NaN \<Rightarrow> NaN
      | PosInf \<Rightarrow> Num 0
      | NegInf \<Rightarrow> Num 0
      | Num a \<Rightarrow> (if a = 0 then PosInf else if 1 < \<bar>a\<bar> then Num 0
                 else if \<bar>a\<bar> = 1 then NaN else PosInf))"

subsection \<open>Facts used by the components\<close>

lemma js_div_Num_nonzero [simp]:
  "b \<noteq> 0 \<Longrightarrow> js_div (Num a) (Num b) = Num (a / b)"
  by simp

lemma js_div_Num_zero:
  "js_div (Num a) (Num 0) = (if a = 0 then NaN else if 0 < a then PosInf else NegInf)"
  by simp

lemma js_sub_Num [simp]: "js_sub (Num a) (Num b) = Num (a - b)"
  by (simp add: js_sub_def)

lemma js_le_Num [simp]: "js_le (Num a) (Num b) = (a \<le> b)"
  by (auto simp: js_le_def js_is_nan_def)

lemma js_less_NaN [simp]: "\<not> js_less NaN x" "\<not> js_less x NaN"
  by (cases x; simp)+

lemma js_le_NaN [simp]: "\<not> js_le NaN x" "\<not> js_le x NaN"
  by (simp_all add: js_le_def js_is_nan_def)

lemma js_max_Num [simp]: "js_max (Num a) (Num b) = Num (max a b)"
  by (simp add: js_max_def js_is_nan_def max_def)

lemma js_min_Num [simp]: "js_min (Num a) (Num b) = Num (min a b)"
  by (auto simp: js_min_def js_is_nan_def min_def)

lemma js_strict_eq_Num [simp]: "js_strict_eq (Num a) (Num b) = (a = b)"
  by (simp add: js_strict_eq_def)

lemma js_is_nan_simps [simp]:
  "js_is_nan (Num a) = False" "js_is_nan PosInf = False"
  "js_is_nan NegInf = False" "js_is_nan NaN = True"
  by (simp_all add: js_is_nan_def)

lemma js_pow_Num_pos [simp]:
  "0 < a \<Longrightarrow> js_pow (Num a) (Num e) = Num (a powr e)"
  by simp

end
