(* ===== verification/NumberFormat.thy ===== *)
theory NumberFormat
  imports JsNumber
begin

text \<open>
  The number-to-text conversions the sources call:
  \<open>Number.prototype.toFixed(f)\<close> (ECMAScript 21.1.3.3) as \<open>to_fixed\<close>, and
  \<open>Number.prototype.toLocaleString\<close> with locale "en" (ECMA-402, rounding
  half away from zero, groups of three separated by commas, U+221E for an
  infinity) as \<open>locale_number\<close>, parameterised by the minimum and maximum
  number of fraction digits. Both round the exact value of the number:
  \<open>round_scaled f x\<close> is the integer \<open>n\<close> closest to \<open>x * 10^f\<close>, the larger
  one on a tie, as the specification of \<open>toFixed\<close> says.
\<close>

definition digit_char :: "nat \<Rightarrow> code_unit" where
  "digit_char d = of_nat (48 + d)"

text \<open>The decimal digits of a natural number, without leading zeros.\<close>

fun show_nat :: "nat \<Rightarrow> jstr" where
  "show_nat n = (if n < 10 then [digit_char n] else show_nat (n div 10) @ [digit_char (n mod 10)])"

declare show_nat.simps [simp del]

definition round_scaled :: "nat \<Rightarrow> real \<Rightarrow> nat" where
  "round_scaled f x = nat \<lfloor>x * 10 ^ f + 1 / 2\<rfloor>"

text \<open>Steps 11.b to 11.d of \<open>toFixed\<close>: the digits of \<open>n\<close>, padded with zeros to at
  least \<open>f + 1\<close> digits, split into the integer part and the last \<open>f\<close> digits.\<close>

definition split_fraction :: "nat \<Rightarrow> nat \<Rightarrow> jstr \<times> jstr" where
  "split_fraction f n =
     (let m = show_nat n;
          m' = (if length m \<le> f then replicate (f + 1 - length m) (digit_char 0) @ m else m)
      in (take (length m' - f) m', drop (length m' - f) m'))"

definition fixed_magnitude :: "nat \<Rightarrow> real \<Rightarrow> jstr" where
  "fixed_magnitude f x =
     (let (a, b) = split_fraction f (round_scaled f x) in
      if f = 0 then a else a @ js ''.'' @ b)"

fun drop_trailing_zeros :: "jstr \<Rightarrow> jstr" where
  "drop_trailing_zeros [] = []"
| "drop_trailing_zeros (c # cs) =
     (let r = drop_trailing_zeros cs in if r = [] \<and> c = digit_char 0 then [] else c # r)"

text \<open>Number::toString for a finite value of at least \<open>10^21\<close> (step 10 of
  \<open>toFixed\<close>): exponential notation. The digits are those of the integer part
  of the exact value; a double that large is an integer, but JavaScript prints
  the shortest digit string that reads back to the same double, which may be
  shorter.\<close>

definition large_to_string :: "real \<Rightarrow> jstr" where
  "large_to_string x =
     (let m = show_nat (nat \<lfloor>x\<rfloor>); ds = drop_trailing_zeros m in
      take 1 ds @ (if length ds \<le> 1 then [] else js ''.'' @ drop 1 ds)
        @ js ''e+'' @ show_nat (length m - 1))"

fun to_fixed :: "nat \<Rightarrow> jsnum \<Rightarrow> jstr" where
  "to_fixed f NaN = js ''NaN''"
| "to_fixed f PosInf = js ''Infinity''"
| "to_fixed f NegInf = js ''-Infinity''"
| "to_fixed f (Num x) =
     (if x < 0 then js ''-'' else []) @
     (if 10 ^ 21 \<le> \<bar>x\<bar> then large_to_string \<bar>x\<bar> else fixed_magnitude f \<bar>x\<bar>)"

text \<open>Grouping of the integer digits in threes, from the right.\<close>

fun group_thousands :: "jstr \<Rightarrow> jstr" where
  "group_thousands ds =
     (if length ds \<le> 3 then ds
      else group_thousands (take (length ds - 3) ds) @ js '','' @ drop (length ds - 3) ds)"

declare group_thousands.simps [simp del]

text \<open>\<open>x.toLocaleString("en", {minimumFractionDigits: lo, maximumFractionDigits: hi})\<close>
  for \<open>lo \<le> hi\<close>: round to \<open>hi\<close> fraction digits, drop trailing zeros of the
  fraction beyond the first \<open>lo\<close>, group the integer part.\<close>

definition locale_magnitude :: "nat \<Rightarrow> nat \<Rightarrow> real \<Rightarrow> jstr" where
  "locale_magnitude lo hi x =
     (let (a, b) = split_fraction hi (round_scaled hi x);
          b' = take lo b @ drop_trailing_zeros (drop lo b)
      in group_thousands a @ (if b' = [] then [] else js ''.'' @ b'))"

fun locale_number :: "nat \<Rightarrow> nat \<Rightarrow> jsnum \<Rightarrow> jstr" where
  "locale_number lo hi NaN = js ''NaN''"
| "locale_number lo hi PosInf = [0x221E]"
| "locale_number lo hi NegInf = js ''-'' @ [0x221E]"
| "locale_number lo hi (Num x) = (if x < 0 then js ''-'' else []) @ locale_magnitude lo hi \<bar>x\<bar>"

text \<open>The two formats the sources use: \<open>toLocaleString("en", {minimumFractionDigits: 2,
  maximumFractionDigits: 2})\<close>, and \<open>toLocaleString()\<close> with no arguments, whose
  defaults are zero to three fraction digits (the server's default locale is
  taken to be English).\<close>

abbreviation locale_2dp :: "jsnum \<Rightarrow> jstr" where
  "locale_2dp \<equiv> locale_number 2 2"

abbreviation locale_default :: "jsnum \<Rightarrow> jstr" where
  "locale_default \<equiv> locale_number 0 3"

abbreviation digit_units :: "code_unit set" where
  "digit_units \<equiv> digit_char ` {..<10}"

subsection \<open>Digits, padding and rounding\<close>

lemma unat_digit_char [simp]: "d < 10 \<Longrightarrow> unat (digit_char d) = 48 + d"
  unfolding digit_char_def unat_of_nat by simp

lemma digit_units_unat: "c \<in> digit_units \<Longrightarrow> 48 \<le> unat c \<and> unat c \<le> 57"
  by auto

lemma show_nat_ne [simp]: "show_nat n \<noteq> []"
  by (subst show_nat.simps) simp

lemma show_nat_digits: "set (show_nat n) \<subseteq> digit_units"
proof (induction n rule: show_nat.induct)
  case (1 n)
  then show ?case
    by (subst show_nat.simps) auto
qed

lemma split_fraction_props:
  assumes "split_fraction f n = (a, b)"
  shows "length b = f" and "a \<noteq> []" and "set (a @ b) \<subseteq> digit_units"
    and "\<exists>k. a @ b = replicate k (digit_char 0) @ show_nat n"
proof -
  define m where "m = show_nat n"
  define m' where "m' = (if length m \<le> f then replicate (f + 1 - length m) (digit_char 0) @ m else m)"
  have len: "f < length m'" by (simp add: m'_def)
  have "split_fraction f n = (take (length m' - f) m', drop (length m' - f) m')"
    by (simp add: split_fraction_def Let_def m_def m'_def)
  with assms have ab: "a = take (length m' - f) m'" "b = drop (length m' - f) m'"
    by simp_all
  show "length b = f" using len ab by simp
  show "a \<noteq> []" using len ab by auto
  have "set m \<subseteq> digit_units" by (simp add: m_def show_nat_digits)
  then have "set m' \<subseteq> digit_units" by (auto simp: m'_def)
  then show "set (a @ b) \<subseteq> digit_units"
    by (simp add: ab)
  have "a @ b = m'" by (simp add: ab)
  also have "m' = replicate (if length m \<le> f then f + 1 - length m else 0) (digit_char 0) @ m"
    by (simp add: m'_def)
  finally show "\<exists>k. a @ b = replicate k (digit_char 0) @ show_nat n"
    by (auto simp: m_def)
qed

lemma round_scaled_bound:
  assumes "0 \<le> y"
  shows "\<bar>real (round_scaled f y) / 10 ^ f - y\<bar> \<le> 1 / (2 * 10 ^ f)"
proof -
  let ?z = "y * 10 ^ f + 1 / 2"
  have nn: "0 \<le> \<lfloor>?z\<rfloor>" using assms by simp
  then have r: "real (round_scaled f y) = of_int \<lfloor>?z\<rfloor>"
    by (simp add: round_scaled_def)
  have "of_int \<lfloor>?z\<rfloor> \<le> ?z" "?z - 1 < of_int \<lfloor>?z\<rfloor>"
    by linarith+
  then have "\<bar>real (round_scaled f y) - y * 10 ^ f\<bar> \<le> 1 / 2"
    unfolding r abs_le_iff by linarith
  then have "\<bar>real (round_scaled f y) - y * 10 ^ f\<bar> / 10 ^ f \<le> (1 / 2) / 10 ^ f"
    by (rule divide_right_mono) simp
  moreover have "\<bar>real (round_scaled f y) - y * 10 ^ f\<bar> / 10 ^ f = \<bar>real (round_scaled f y) / 10 ^ f - y\<bar>"
    by (simp add: abs_div_pos diff_divide_distrib)
  moreover have "(1 / 2) / 10 ^ f = 1 / (2 * (10::real) ^ f)"
    by simp
  ultimately show ?thesis by simp
qed

lemma round_scaled_value_bound:
  assumes "0 \<le> y" "y < 10 ^ 21"
  shows "real (round_scaled f y) / 10 ^ f < 10 ^ 21 + 1"
proof -
  have "1 \<le> 2 * (10::real) ^ f"
    using one_le_power [of "10::real" f] by linarith
  then have half: "1 / (2 * 10 ^ f) \<le> (1::real)"
    by (simp add: divide_le_eq)
  have "real (round_scaled f y) / 10 ^ f \<le> y + 1 / (2 * 10 ^ f)"
    using round_scaled_bound [OF assms(1), of f] by (simp add: abs_le_iff)
  with half assms(2) show ?thesis by linarith
qed

lemma fixed_magnitude_split:
  assumes "split_fraction f (round_scaled f y) = (a, b)" "0 < f"
  shows "fixed_magnitude f y = a @ js ''.'' @ b"
  using assms by (simp add: fixed_magnitude_def)

lemma group_thousands_filter:
  "0x2C \<notin> set ds \<Longrightarrow> filter (\<lambda>c. c \<noteq> 0x2C) (group_thousands ds) = ds"
proof (induction ds rule: group_thousands.induct)
  case (1 ds)
  show ?case
  proof (cases "length ds \<le> 3")
    case True
    with "1.prems" show ?thesis
      by (subst group_thousands.simps) (auto simp: filter_id_conv)
  next
    case False
    have "0x2C \<notin> set (take (length ds - 3) ds)"
      using "1.prems" by (meson in_set_takeD)
    with False "1.IH" have "filter (\<lambda>c. c \<noteq> 0x2C) (group_thousands (take (length ds - 3) ds))
        = take (length ds - 3) ds" by simp
    moreover have "filter (\<lambda>c. c \<noteq> 0x2C) (drop (length ds - 3) ds) = drop (length ds - 3) ds"
      using "1.prems" by (auto simp: filter_id_conv dest: in_set_dropD)
    ultimately show ?thesis
      using False by (subst group_thousands.simps) simp
  qed
qed

lemma comma_not_digit: "set xs \<subseteq> digit_units \<Longrightarrow> 0x2C \<notin> set xs"
  using digit_units_unat [of "0x2C"] by auto

lemma locale_magnitude_2dp:
  assumes "split_fraction 2 (round_scaled 2 y) = (a, b)"
  shows "locale_magnitude 2 2 y = group_thousands a @ js ''.'' @ b"
proof -
  have "length b = 2" by (rule split_fraction_props(1) [OF assms])
  then have "take 2 b = b" "drop 2 b = []" by simp_all
  with \<open>length b = 2\<close> show ?thesis
    by (auto simp: locale_magnitude_def assms)
qed

lemma to_fixed_small:
  "\<bar>x\<bar> < 10 ^ 21 \<Longrightarrow> to_fixed f (Num x) = (if x < 0 then js ''-'' else []) @ fixed_magnitude f \<bar>x\<bar>"
  by simp

lemma fixed_magnitude_ne: "fixed_magnitude f x \<noteq> []"
proof -
  obtain a b where ab: "split_fraction f (round_scaled f x) = (a, b)" by fastforce
  then have "a \<noteq> []" by (rule split_fraction_props(2))
  with ab show ?thesis by (simp add: fixed_magnitude_def)
qed

lemma to_fixed_ne [simp]: "to_fixed f x \<noteq> []"
  by (cases x) (simp_all add: fixed_magnitude_ne large_to_string_def Let_def)

subsection \<open>The formatting contract\<close>

text \<open>\<open>x.toFixed(f)\<close> of a finite number below \<open>10^21\<close> in magnitude, for
  \<open>f > 0\<close>, is an optional minus sign, a non-empty run of digits, a point and
  exactly \<open>f\<close> digits.\<close>

theorem to_fixed_decimal_places:
  assumes "\<bar>x\<bar> < 10 ^ 21" and "0 < f"
  shows "\<exists>a b. to_fixed f (Num x) = (if x < 0 then js ''-'' else []) @ a @ js ''.'' @ b \<and>
           a \<noteq> [] \<and> length b = f \<and> set (a @ b) \<subseteq> digit_units"
proof -
  obtain a b where ab: "split_fraction f (round_scaled f \<bar>x\<bar>) = (a, b)" by fastforce
  have "to_fixed f (Num x) = (if x < 0 then js ''-'' else []) @ a @ js ''.'' @ b"
    using assms by (simp only: to_fixed_small fixed_magnitude_split [OF ab])
  then show ?thesis
    using split_fraction_props [OF ab] by blast
qed

text \<open>The English locale format with two fraction digits differs from
  \<open>toFixed(2)\<close> only by its thousands separators.\<close>

theorem locale_2dp_strip_commas:
  assumes "\<bar>x\<bar> < 10 ^ 21"
  shows "filter (\<lambda>c. c \<noteq> 0x2C) (locale_2dp (Num x)) = to_fixed 2 (Num x)"
proof -
  obtain a b where ab: "split_fraction 2 (round_scaled 2 \<bar>x\<bar>) = (a, b)" by fastforce
  note props = split_fraction_props [OF ab]
  have b2: "take 2 b = b" "drop 2 b = []" using props(1) by simp_all
  have "locale_magnitude 2 2 \<bar>x\<bar> = group_thousands a @ js ''.'' @ b"
    by (rule locale_magnitude_2dp [OF ab])
  moreover have "filter (\<lambda>c. c \<noteq> 0x2C) (group_thousands a) = a"
    using props(3) by (simp add: group_thousands_filter comma_not_digit)
  moreover have "filter (\<lambda>c. c \<noteq> 0x2C) b = b"
    using props(3) comma_not_digit [of b] by (simp add: filter_id_conv) blast
  ultimately show ?thesis
    using assms by (simp add: fixed_magnitude_split [OF ab])
qed

end
