(* ===== verification/Markup.thy ===== *)
theory Markup
  imports NumberFormat
begin

text \<open>
  The presentation layer the comparison sections render into: the article
  components \<open>Section\<close>, \<open>H2\<close>, \<open>P\<close> and \<open>Table\<close> (under
  \<open>app/components/*/content/page/main/article\<close>, outside \<open>src\<close>). They only
  lay out what they are given, so a rendered section is modelled as the data
  passed to them: the section's \<open>aria-labelledby\<close> and its children in order.
  A table is its header row (row label and the two symbols) and its body rows
  (row label and the two cells). A cell holds text, or a Number or a date
  string that React and \<open>toLocaleDateString\<close> print (their printing is not
  modelled).
\<close>

datatype cell = CellText jstr | CellNumber jsnum | CellDate jstr

datatype block =
    H2 jstr jstr
  | P jstr
  | Table "jstr \<times> jstr \<times> jstr" "(jstr \<times> cell \<times> cell) list"

record rendered_section =
  ariaLabelledby :: jstr
  children :: "block list"

fun paragraph_text :: "block \<Rightarrow> jstr option" where
  "paragraph_text (P t) = Some t"
| "paragraph_text _ = None"

definition paragraphs :: "rendered_section \<Rightarrow> jstr list" where
  "paragraphs s = List.map_filter paragraph_text (children s)"

fun is_table :: "block \<Rightarrow> bool" where
  "is_table (Table _ _) = True"
| "is_table _ = False"

definition has_table :: "rendered_section \<Rightarrow> bool" where
  "has_table s = list_ex is_table (children s)"

end
