(* ===== verification/CompanyOverview.thy ===== *)
theory CompanyOverview
  imports Markup
begin

text \<open>
  The English company-overview section,
  \<open>src/app/en/stock-comparisons/[slug]/components/CompanyOverviewSection.tsx\<close>:
  the profile record, \<open>fetchCompanyProfileData\<close> (the response shapes of
  \<open>Prelude\<close> in place of the HTTP call), the three commentary generators with
  one definition per sentence template, and the section, which short-circuits
  to the unavailable message when either profile is missing. The classifier
  \<open>classify_ratio\<close> is the abstract rule the spec describes (classify, then
  render); the theorems show that both ratio generators implement it, where
  it agrees with the spec's symmetric rule and where it does not.
\<close>

record CompanyProfileData =
  companyName :: jstr
  country :: jstr
  sector :: jstr
  industry :: jstr
  ceo :: jstr
  price :: jsnum
  marketCap :: jsnum
  beta :: jsnum
  exchange :: jstr
  ipoDate :: jstr
  isAdr :: bool
  currency :: jstr

text \<open>\<open>rawData[0]\<close> of the parsed body, \<open>null\<close> when the fetch or the parse throws.
  On a \<open>null\<close> body the index throws and is caught; on the API's error object
  it is \<open>undefined\<close>. The URL and the API key only select the response.\<close>

fun fetchCompanyProfileData :: "CompanyProfileData json_response \<Rightarrow> CompanyProfileData option" where
  "fetchCompanyProfileData FetchFailed = None"
| "fetchCompanyProfileData JsonNull = None"
| "fetchCompanyProfileData JsonObject = None"
| "fetchCompanyProfileData (JsonArray rawData) = js_index0 rawData"

text \<open>\<open>(v / 1000000000).toLocaleString("en", {minimumFractionDigits: 2,
  maximumFractionDigits: 2})\<close>, written out four times in the source.\<close>

definition format_billions :: "jsnum \<Rightarrow> jstr" where
  "format_billions v = locale_2dp (js_div v (Num 1000000000))"

subsection \<open>Market capitalisation\<close>

definition market_cap_one_larger_template ::
  "jstr \<Rightarrow> jstr \<Rightarrow> jstr \<Rightarrow> jstr \<Rightarrow> jstr \<Rightarrow> jstr \<Rightarrow> jstr \<Rightarrow> jstr" where
  [template_defs]: "market_cap_one_larger_template stockOneSymbol stockOneFormattedMarketCap
     stockOneCurrency ratio stockTwoSymbol stockTwoFormattedMarketCap stockTwoCurrency =
   js ''For market capitalization, '' @ stockOneSymbol @ js '' is notably larger with a market cap of approximately '' @ stockOneFormattedMarketCap @ js '' billion '' @ stockOneCurrency @ js '', roughly '' @ ratio @ js '' times that of '' @ stockTwoSymbol @ js '' ('' @ stockTwoFormattedMarketCap @ js '' billion '' @ stockTwoCurrency @ js '').''"

definition market_cap_two_larger_template ::
  "jstr \<Rightarrow> jstr \<Rightarrow> jstr \<Rightarrow> jstr \<Rightarrow> jstr \<Rightarrow> jstr \<Rightarrow> jstr \<Rightarrow> jstr" where
  [template_defs]: "market_cap_two_larger_template stockTwoSymbol stockTwoFormattedMarketCap
     stockTwoCurrency inverseRatio stockOneSymbol stockOneFormattedMarketCap stockOneCurrency =
   js ''In terms of market cap, '' @ stockTwoSymbol @ js '' stands out with a value of approximately '' @ stockTwoFormattedMarketCap @ js '' billion '' @ stockTwoCurrency @ js '', roughly '' @ inverseRatio @ js '' times that of '' @ stockOneSymbol @ js '' ('' @ stockOneFormattedMarketCap @ js '' billion '' @ stockOneCurrency @ js '').''"

definition market_cap_comparable_template ::
  "jstr \<Rightarrow> jstr \<Rightarrow> jstr \<Rightarrow> jstr \<Rightarrow> jstr \<Rightarrow> jstr \<Rightarrow> jstr" where
  [template_defs]: "market_cap_comparable_template stockOneSymbol stockTwoSymbol
     stockOneFormattedMarketCap stockOneCurrency stockTwoFormattedMarketCap stockTwoCurrency =
   js ''Both '' @ stockOneSymbol @ js '' and '' @ stockTwoSymbol @ js '' have comparable market capitalizations, at '' @ stockOneFormattedMarketCap @ js '' billion '' @ stockOneCurrency @ js '' and '' @ stockTwoFormattedMarketCap @ js '' billion '' @ stockTwoCurrency @ js '', respectively.''"

definition generateMarketCapComparisonCommentary ::
  "jstr \<Rightarrow> jsnum \<Rightarrow> jstr \<Rightarrow> jstr \<Rightarrow> jsnum \<Rightarrow> jstr \<Rightarrow> jstr" where
  "generateMarketCapComparisonCommentary stockOneSymbol stockOneMarketCap stockOneCurrency
     stockTwoSymbol stockTwoMarketCap stockTwoCurrency =
   (let marketCapRatio = js_div stockOneMarketCap stockTwoMarketCap;
        stockOneFormattedMarketCap = format_billions stockOneMarketCap;
        stockTwoFormattedMarketCap = format_billions stockTwoMarketCap
    in if js_less (Num (3/2)) marketCapRatio then
         market_cap_one_larger_template stockOneSymbol stockOneFormattedMarketCap stockOneCurrency
           (to_fixed 2 marketCapRatio) stockTwoSymbol stockTwoFormattedMarketCap stockTwoCurrency
       else if js_less marketCapRatio (Num (67/100)) then
         (let inverseRatio = js_div (Num 1) marketCapRatio in
          market_cap_two_larger_template stockTwoSymbol stockTwoFormattedMarketCap stockTwoCurrency
            (to_fixed 2 inverseRatio) stockOneSymbol stockOneFormattedMarketCap stockOneCurrency)
       else
         market_cap_comparable_template stockOneSymbol stockTwoSymbol stockOneFormattedMarketCap
           stockOneCurrency stockTwoFormattedMarketCap stockTwoCurrency)"

subsection \<open>Beta\<close>

definition beta_one_higher_template :: "jstr \<Rightarrow> jstr \<Rightarrow> jstr \<Rightarrow> jstr \<Rightarrow> jstr" where
  [template_defs]: "beta_one_higher_template stockOneSymbol stockOneBeta stockTwoSymbol stockTwoBeta =
   js ''Regarding volatility, '' @ stockOneSymbol @ js '' has a higher beta of '' @ stockOneBeta @ js '' (suggesting potentially higher volatility relative to the market), compared to '' @ stockTwoSymbol @ [0x0027] @ js ''s beta of '' @ stockTwoBeta @ js ''.''"

definition beta_two_higher_template :: "jstr \<Rightarrow> jstr \<Rightarrow> jstr \<Rightarrow> jstr \<Rightarrow> jstr" where
  [template_defs]: "beta_two_higher_template stockTwoSymbol stockTwoBeta stockOneSymbol stockOneBeta =
   js ''Looking at volatility, '' @ stockTwoSymbol @ js '' shows a higher beta of '' @ stockTwoBeta @ js '' (suggesting potentially higher volatility relative to the market), while '' @ stockOneSymbol @ js '' has a beta of '' @ stockOneBeta @ js ''.''"

definition beta_similar_template :: "jstr \<Rightarrow> jstr \<Rightarrow> jstr \<Rightarrow> jstr \<Rightarrow> jstr" where
  [template_defs]: "beta_similar_template stockOneSymbol stockOneBeta stockTwoSymbol stockTwoBeta =
   js ''Both stocks exhibit similar volatility characteristics based on their beta values, with '' @ stockOneSymbol @ js '' at '' @ stockOneBeta @ js '' and '' @ stockTwoSymbol @ js '' at '' @ stockTwoBeta @ js ''.''"

definition generateBetaComparisonCommentary :: "jstr \<Rightarrow> jsnum \<Rightarrow> jstr \<Rightarrow> jsnum \<Rightarrow> jstr" where
  "generateBetaComparisonCommentary stockOneSymbol stockOneBeta stockTwoSymbol stockTwoBeta =
   (let betaRatio = js_div stockOneBeta stockTwoBeta
    in if js_less (Num (3/2)) betaRatio then
         beta_one_higher_template stockOneSymbol (to_fixed 2 stockOneBeta) stockTwoSymbol (to_fixed 2 stockTwoBeta)
       else if js_less betaRatio (Num (67/100)) then
         beta_two_higher_template stockTwoSymbol (to_fixed 2 stockTwoBeta) stockOneSymbol (to_fixed 2 stockOneBeta)
       else
         beta_similar_template stockOneSymbol (to_fixed 2 stockOneBeta) stockTwoSymbol (to_fixed 2 stockTwoBeta))"

subsection \<open>ADR status\<close>

definition adr_both_template :: "jstr \<Rightarrow> jstr \<Rightarrow> jstr" where
  [template_defs]: "adr_both_template stockOneSymbol stockTwoSymbol =
   js ''Also, please note: both '' @ stockOneSymbol @ js '' and '' @ stockTwoSymbol @ js '' are ADRs. This means they represent ownership in shares of foreign companies, made available for trading on U.S. stock exchanges, offering investors exposure to international markets.''"

definition adr_one_template :: "jstr \<Rightarrow> jstr \<Rightarrow> jstr" where
  [template_defs]: "adr_one_template stockOneSymbol stockTwoSymbol =
   js ''Also, please note: '' @ stockOneSymbol @ js '' operates as an ADR, meaning it'' @ [0x2019] @ js ''s a foreign company'' @ [0x2019] @ js ''s stock listed on U.S. exchanges, while '' @ stockTwoSymbol @ js '' is a standard U.S.-listed stock, not tied to the ADR structure.''"

definition adr_two_template :: "jstr \<Rightarrow> jstr \<Rightarrow> jstr" where
  [template_defs]: "adr_two_template stockTwoSymbol stockOneSymbol =
   js ''Also, please note: '' @ stockTwoSymbol @ js '' is structured as an ADR, indicating it'' @ [0x2019] @ js ''s a foreign entity traded on U.S. markets, whereas '' @ stockOneSymbol @ js '' is a regular U.S.-based stock without ADR designation.''"

definition generateAdrCommentary :: "jstr \<Rightarrow> bool \<Rightarrow> jstr \<Rightarrow> bool \<Rightarrow> jstr" where
  "generateAdrCommentary stockOneSymbol stockOneIsAdr stockTwoSymbol stockTwoIsAdr =
   (if stockOneIsAdr \<and> stockTwoIsAdr then adr_both_template stockOneSymbol stockTwoSymbol
    else if stockOneIsAdr then adr_one_template stockOneSymbol stockTwoSymbol
    else if stockTwoIsAdr then adr_two_template stockTwoSymbol stockOneSymbol
    else [])"

subsection \<open>The section\<close>

text \<open>The table rows after the header: each row label with the cell the source
  renders for the first and for the second profile.\<close>

definition company_overview_fields :: "(jstr \<times> (CompanyProfileData \<Rightarrow> cell)) list" where
  "company_overview_fields =
   [(js ''Company Name'', \<lambda>p. CellText (companyName p)),
    (js ''Country'', \<lambda>p. CellText (country p)),
    (js ''Sector'', \<lambda>p. CellText (sector p)),
    (js ''Industry'', \<lambda>p. CellText (industry p)),
    (js ''CEO'', \<lambda>p. CellText (ceo p)),
    (js ''Price'', \<lambda>p. CellText (locale_default (price p) @ js '' '' @ currency p)),
    (js ''Market Cap'', \<lambda>p. CellText (format_billions (marketCap p) @ js '' billion '' @ currency p)),
    (js ''Beta'', \<lambda>p. CellNumber (beta p)),
    (js ''Exchange'', \<lambda>p. CellText (exchange p)),
    (js ''IPO Date'', \<lambda>p. CellDate (ipoDate p)),
    (js ''ADR'', \<lambda>p. CellText (if isAdr p then js ''Yes'' else js ''No''))]"

definition company_overview_rows ::
  "CompanyProfileData \<Rightarrow> CompanyProfileData \<Rightarrow> (jstr \<times> cell \<times> cell) list" where
  "company_overview_rows p1 p2 = map (\<lambda>(label, f). (label, f p1, f p2)) company_overview_fields"

definition company_overview_unavailable :: rendered_section where
  "company_overview_unavailable =
   \<lparr>ariaLabelledby = js ''company-overview'',
    children = [H2 (js ''company-overview'') (js ''Company Overview''),
                P (js ''Company overview data is currently unavailable.'')]\<rparr>"

definition CompanyOverviewSection ::
  "jstr \<Rightarrow> jstr \<Rightarrow> CompanyProfileData json_response \<Rightarrow> CompanyProfileData json_response \<Rightarrow> rendered_section" where
  "CompanyOverviewSection stockOneSymbol stockTwoSymbol responseOne responseTwo =
   (case (fetchCompanyProfileData responseOne, fetchCompanyProfileData responseTwo) of
      (Some p1, Some p2) \<Rightarrow>
        (let marketCapComparisonCommentary = generateMarketCapComparisonCommentary
               stockOneSymbol (marketCap p1) (currency p1) stockTwoSymbol (marketCap p2) (currency p2);
             betaComparisonCommentary = generateBetaComparisonCommentary
               stockOneSymbol (beta p1) stockTwoSymbol (beta p2);
             adrCommentary = generateAdrCommentary stockOneSymbol (isAdr p1) stockTwoSymbol (isAdr p2)
         in \<lparr>ariaLabelledby = js ''company-overview'',
             children =
               [H2 (js ''company-overview'') (js ''Company Overview''),
                P marketCapComparisonCommentary,
                P betaComparisonCommentary] @
               (if adrCommentary = [] then [] else [P adrCommentary]) @
               [P (js ''For a detailed comparison, please refer to the table below.''),
                Table (js ''Symbol'', stockOneSymbol, stockTwoSymbol) (company_overview_rows p1 p2)]\<rparr>)
    | _ \<Rightarrow> company_overview_unavailable)"

subsection \<open>The classify-then-render specification\<close>

text \<open>The spec's model of the two ratio generators: a locale-free classifier with
  the upper threshold \<open>1.5\<close> and the lower threshold derived as \<open>1 / 1.5\<close>,
  followed by a renderer from the category to the sentence.\<close>

datatype ratio_category = A_DOMINANT | B_DOMINANT | COMPARABLE

definition spec_classify :: "real \<Rightarrow> ratio_category" where
  "spec_classify r = (if 3/2 < r then A_DOMINANT else if r < 1 / (3/2) then B_DOMINANT else COMPARABLE)"

definition render_market_cap ::
  "ratio_category \<Rightarrow> jstr \<Rightarrow> real \<Rightarrow> jstr \<Rightarrow> jstr \<Rightarrow> real \<Rightarrow> jstr \<Rightarrow> jstr" where
  "render_market_cap cat s1 a u1 s2 b u2 =
   (case cat of
      A_DOMINANT \<Rightarrow> market_cap_one_larger_template s1 (format_billions (Num a)) u1
                     (to_fixed 2 (Num (a / b))) s2 (format_billions (Num b)) u2
    | B_DOMINANT \<Rightarrow> market_cap_two_larger_template s2 (format_billions (Num b)) u2
                     (to_fixed 2 (Num (b / a))) s1 (format_billions (Num a)) u1
    | COMPARABLE \<Rightarrow> market_cap_comparable_template s1 s2 (format_billions (Num a)) u1
                     (format_billions (Num b)) u2)"

definition render_beta :: "ratio_category \<Rightarrow> jstr \<Rightarrow> real \<Rightarrow> jstr \<Rightarrow> real \<Rightarrow> jstr" where
  "render_beta cat s1 b1 s2 b2 =
   (case cat of
      A_DOMINANT \<Rightarrow> beta_one_higher_template s1 (to_fixed 2 (Num b1)) s2 (to_fixed 2 (Num b2))
    | B_DOMINANT \<Rightarrow> beta_two_higher_template s2 (to_fixed 2 (Num b2)) s1 (to_fixed 2 (Num b1))
    | COMPARABLE \<Rightarrow> beta_similar_template s1 (to_fixed 2 (Num b1)) s2 (to_fixed 2 (Num b2)))"

text \<open>The band of ratios where the source's lower threshold \<open>0.67\<close> and the
  spec's \<open>1 / 1.5\<close> disagree.\<close>

definition in_threshold_gap :: "real \<Rightarrow> bool" where
  "in_threshold_gap r = (2/3 \<le> r \<and> r < 67/100)"

subsection \<open>One lemma per branch of the generators\<close>

lemmas format_eval = show_nat.simps round_scaled_def split_fraction_def fixed_magnitude_def
  locale_magnitude_def digit_char_def group_thousands.simps format_billions_def Let_def

lemma market_cap_branch_one:
  "b \<noteq> 0 \<Longrightarrow> 3/2 < a / b \<Longrightarrow>
   generateMarketCapComparisonCommentary s1 (Num a) u1 s2 (Num b) u2 =
   market_cap_one_larger_template s1 (format_billions (Num a)) u1 (to_fixed 2 (Num (a / b)))
     s2 (format_billions (Num b)) u2"
  unfolding generateMarketCapComparisonCommentary_def Let_def
  by (simp only: simp_thms js_div_Num_nonzero js_less.simps(1) if_True)

lemma market_cap_branch_two:
  "b \<noteq> 0 \<Longrightarrow> a \<noteq> 0 \<Longrightarrow> \<not> 3/2 < a / b \<Longrightarrow> a / b < 67/100 \<Longrightarrow>
   generateMarketCapComparisonCommentary s1 (Num a) u1 s2 (Num b) u2 =
   market_cap_two_larger_template s2 (format_billions (Num b)) u2 (to_fixed 2 (Num (b / a)))
     s1 (format_billions (Num a)) u1"
proof -
  assume "b \<noteq> 0" "a \<noteq> 0" "\<not> 3/2 < a / b" "a / b < 67/100"
  moreover have "a / b \<noteq> 0" "1 / (a / b) = b / a" using \<open>a \<noteq> 0\<close> \<open>b \<noteq> 0\<close> by simp_all
  ultimately show ?thesis
    unfolding generateMarketCapComparisonCommentary_def Let_def
    by (simp only: simp_thms js_div_Num_nonzero js_less.simps(1) if_True if_False)
qed

lemma market_cap_branch_comparable:
  "b \<noteq> 0 \<Longrightarrow> \<not> 3/2 < a / b \<Longrightarrow> \<not> a / b < 67/100 \<Longrightarrow>
   generateMarketCapComparisonCommentary s1 (Num a) u1 s2 (Num b) u2 =
   market_cap_comparable_template s1 s2 (format_billions (Num a)) u1 (format_billions (Num b)) u2"
  unfolding generateMarketCapComparisonCommentary_def Let_def
  by (simp only: simp_thms js_div_Num_nonzero js_less.simps(1) if_False)

lemma beta_branch_one:
  "b2 \<noteq> 0 \<Longrightarrow> 3/2 < b1 / b2 \<Longrightarrow>
   generateBetaComparisonCommentary s1 (Num b1) s2 (Num b2) =
   beta_one_higher_template s1 (to_fixed 2 (Num b1)) s2 (to_fixed 2 (Num b2))"
  unfolding generateBetaComparisonCommentary_def Let_def
  by (simp only: simp_thms js_div_Num_nonzero js_less.simps(1) if_True if_False)

lemma beta_branch_two:
  "b2 \<noteq> 0 \<Longrightarrow> \<not> 3/2 < b1 / b2 \<Longrightarrow> b1 / b2 < 67/100 \<Longrightarrow>
   generateBetaComparisonCommentary s1 (Num b1) s2 (Num b2) =
   beta_two_higher_template s2 (to_fixed 2 (Num b2)) s1 (to_fixed 2 (Num b1))"
  unfolding generateBetaComparisonCommentary_def Let_def
  by (simp only: simp_thms js_div_Num_nonzero js_less.simps(1) if_True if_False)

lemma beta_branch_similar:
  "b2 \<noteq> 0 \<Longrightarrow> \<not> 3/2 < b1 / b2 \<Longrightarrow> \<not> b1 / b2 < 67/100 \<Longrightarrow>
   generateBetaComparisonCommentary s1 (Num b1) s2 (Num b2) =
   beta_similar_template s1 (to_fixed 2 (Num b1)) s2 (to_fixed 2 (Num b2))"
  unfolding generateBetaComparisonCommentary_def Let_def
  by (simp only: simp_thms js_div_Num_nonzero js_less.simps(1) if_True if_False)

text \<open>Outside the threshold gap, the spec's category and the source's two tests
  agree branch by branch.\<close>

lemma spec_classify_outside_gap:
  "\<not> in_threshold_gap r \<Longrightarrow>
   (3/2 < r \<and> spec_classify r = A_DOMINANT) \<or>
   (\<not> 3/2 < r \<and> r < 67/100 \<and> spec_classify r = B_DOMINANT) \<or>
   (\<not> 3/2 < r \<and> \<not> r < 67/100 \<and> spec_classify r = COMPARABLE)"
  by (auto simp: spec_classify_def in_threshold_gap_def)

lemma format_billions_Num:
  "format_billions (Num v) = locale_2dp (Num (v / 1000000000))"
  unfolding format_billions_def by (subst js_div_Num_nonzero) simp_all

lemma format_billions_zero: "format_billions (Num 0) = js ''0.00''"
  by (simp add: format_eval)

subsection \<open>Market capitalisation\<close>

text \<open>C1. Refinement: for positive market caps whose ratio lies outside the band
  \<open>[1/1.5, 0.67)\<close>, the generator is the spec's classify-then-render: the
  category of \<open>a / b\<close> under thresholds \<open>1.5\<close> and \<open>1 / 1.5\<close>, rendered with
  the two caps in billions and the ratio (or its inverse) to two decimals.\<close>

theorem market_cap_refines_spec:
  assumes "0 < a" "0 < b" "\<not> in_threshold_gap (a / b)"
  shows "generateMarketCapComparisonCommentary s1 (Num a) u1 s2 (Num b) u2 =
         render_market_cap (spec_classify (a / b)) s1 a u1 s2 b u2"
proof -
  have nz: "b \<noteq> 0" "a \<noteq> 0" using assms by simp_all
  from spec_classify_outside_gap [OF assms(3)] show ?thesis
  proof (elim disjE conjE)
    assume h: "3/2 < a / b" "spec_classify (a / b) = A_DOMINANT"
    show ?thesis unfolding h(2) render_market_cap_def ratio_category.case
      by (rule market_cap_branch_one [OF nz(1) h(1)])
  next
    assume h: "\<not> 3/2 < a / b" "a / b < 67/100" "spec_classify (a / b) = B_DOMINANT"
    show ?thesis unfolding h(3) render_market_cap_def ratio_category.case
      by (rule market_cap_branch_two [OF nz h(1) h(2)])
  next
    assume h: "\<not> 3/2 < a / b" "\<not> a / b < 67/100" "spec_classify (a / b) = COMPARABLE"
    show ?thesis unfolding h(3) render_market_cap_def ratio_category.case
      by (rule market_cap_branch_comparable [OF nz(1) h(1) h(2)])
  qed
qed

theorem market_cap_refines_spec_witness:
  "0 < (3000000000::real) \<and> 0 < (1000000000::real) \<and> \<not> in_threshold_gap (3000000000 / 1000000000) \<and>
   generateMarketCapComparisonCommentary (js ''AAPL'') (Num 3000000000) (js ''USD'') (js ''TSLA'') (Num 1000000000) (js ''USD'') =
   render_market_cap (spec_classify (3000000000 / 1000000000)) (js ''AAPL'') 3000000000 (js ''USD'') (js ''TSLA'') 1000000000 (js ''USD'')"
  using market_cap_refines_spec [of 3000000000 1000000000] by (simp add: in_threshold_gap_def)

text \<open>C2. Both thresholds are strict: a ratio of exactly \<open>1.5\<close> and a ratio of
  exactly \<open>0.67\<close> both give the "comparable" sentence.\<close>

theorem market_cap_threshold_boundaries:
  assumes "0 < b"
  shows "generateMarketCapComparisonCommentary s1 (Num (3/2 * b)) u1 s2 (Num b) u2 =
           market_cap_comparable_template s1 s2 (format_billions (Num (3/2 * b))) u1 (format_billions (Num b)) u2 \<and>
         generateMarketCapComparisonCommentary s1 (Num (67/100 * b)) u1 s2 (Num b) u2 =
           market_cap_comparable_template s1 s2 (format_billions (Num (67/100 * b))) u1 (format_billions (Num b)) u2"
  using assms by (simp add: market_cap_branch_comparable)

theorem market_cap_threshold_boundaries_witness:
  "0 < (1000000000::real) \<and>
   generateMarketCapComparisonCommentary (js ''AAPL'') (Num (3/2 * 1000000000)) (js ''USD'') (js ''TSLA'') (Num 1000000000) (js ''USD'') =
     market_cap_comparable_template (js ''AAPL'') (js ''TSLA'') (format_billions (Num (3/2 * 1000000000))) (js ''USD'') (format_billions (Num 1000000000)) (js ''USD'') \<and>
   generateMarketCapComparisonCommentary (js ''AAPL'') (Num (67/100 * 1000000000)) (js ''USD'') (js ''TSLA'') (Num 1000000000) (js ''USD'') =
     market_cap_comparable_template (js ''AAPL'') (js ''TSLA'') (format_billions (Num (67/100 * 1000000000))) (js ''USD'') (format_billions (Num 1000000000)) (js ''USD'')"
  using market_cap_threshold_boundaries [of 1000000000] by simp

text \<open>C3. The source's lower threshold is the literal \<open>0.67\<close>, not \<open>1 / 1.5\<close>.
  For a ratio in \<open>[1/1.5, 0.67)\<close> the generator says the second stock "stands
  out" where the spec's rule says the two are comparable, and with the two
  stocks swapped it calls them comparable: the classification is not
  antisymmetric under swapping the arguments.\<close>

theorem market_cap_lower_threshold_divergence:
  assumes "0 < a" "0 < b" "in_threshold_gap (a / b)"
  shows "generateMarketCapComparisonCommentary s1 (Num a) u1 s2 (Num b) u2 =
           render_market_cap B_DOMINANT s1 a u1 s2 b u2 \<and>
         spec_classify (a / b) = COMPARABLE \<and>
         generateMarketCapComparisonCommentary s2 (Num b) u2 s1 (Num a) u1 =
           render_market_cap COMPARABLE s2 b u2 s1 a u1"
proof -
  from assms have r: "2/3 \<le> a / b" "a / b < 67/100" by (simp_all add: in_threshold_gap_def)
  have h1: "\<not> 3/2 < a / b" using r(2) by linarith
  from market_cap_branch_two [OF _ _ h1 r(2)] assms
  have one: "generateMarketCapComparisonCommentary s1 (Num a) u1 s2 (Num b) u2 =
           render_market_cap B_DOMINANT s1 a u1 s2 b u2"
    by (simp add: render_market_cap_def)
  have h2: "\<not> a / b < 1 / (3/2)" using r(1) by simp
  have spec: "spec_classify (a / b) = COMPARABLE"
    by (simp only: spec_classify_def h1 h2 if_False)
  have "b / a \<le> 3/2" "100/67 < b / a" using r assms by (simp_all add: field_simps)
  then have "\<not> 3/2 < b / a" "\<not> b / a < 67/100" by linarith+
  from market_cap_branch_comparable [OF _ this] assms
  have swapped: "generateMarketCapComparisonCommentary s2 (Num b) u2 s1 (Num a) u1 =
           render_market_cap COMPARABLE s2 b u2 s1 a u1"
    by (simp add: render_market_cap_def)
  from one spec swapped show ?thesis by blast
qed

theorem market_cap_lower_threshold_divergence_witness:
  "0 < (668::real) \<and> 0 < (1000::real) \<and> in_threshold_gap (668 / 1000) \<and>
   generateMarketCapComparisonCommentary (js ''A'') (Num 668) (js ''USD'') (js ''B'') (Num 1000) (js ''USD'') =
     render_market_cap B_DOMINANT (js ''A'') 668 (js ''USD'') (js ''B'') 1000 (js ''USD'') \<and>
   spec_classify (668 / 1000) = COMPARABLE \<and>
   generateMarketCapComparisonCommentary (js ''B'') (Num 1000) (js ''USD'') (js ''A'') (Num 668) (js ''USD'') =
     render_market_cap COMPARABLE (js ''B'') 1000 (js ''USD'') (js ''A'') 668 (js ''USD'')"
proof -
  have g: "in_threshold_gap (668 / 1000)" by (simp add: in_threshold_gap_def)
  show ?thesis
    using market_cap_lower_threshold_divergence [of 668 1000, OF _ _ g] g by simp
qed

text \<open>C4. Swapping the stocks mirrors a clear dominance: when the first cap is
  more than 1.5 times the second, the first stock is named the larger one with
  the same multiple whichever argument position it is in.\<close>

theorem market_cap_swap_mirror:
  assumes "0 < b" "3/2 * b < a"
  shows "generateMarketCapComparisonCommentary s1 (Num a) u1 s2 (Num b) u2 =
           market_cap_one_larger_template s1 (format_billions (Num a)) u1 (to_fixed 2 (Num (a / b)))
             s2 (format_billions (Num b)) u2 \<and>
         generateMarketCapComparisonCommentary s2 (Num b) u2 s1 (Num a) u1 =
           market_cap_two_larger_template s1 (format_billions (Num a)) u1 (to_fixed 2 (Num (a / b)))
             s2 (format_billions (Num b)) u2"
proof -
  have a: "0 < a" using assms by linarith
  have "3/2 < a / b" using assms by (simp add: field_simps)
  from market_cap_branch_one [OF _ this] assms
  have one: "generateMarketCapComparisonCommentary s1 (Num a) u1 s2 (Num b) u2 =
           market_cap_one_larger_template s1 (format_billions (Num a)) u1 (to_fixed 2 (Num (a / b)))
             s2 (format_billions (Num b)) u2"
    by simp
  have "b / a < 2/3" using assms a by (simp add: field_simps)
  then have "\<not> 3/2 < b / a" "b / a < 67/100" by linarith+
  from market_cap_branch_two [OF _ _ this] assms a
  have swapped: "generateMarketCapComparisonCommentary s2 (Num b) u2 s1 (Num a) u1 =
           market_cap_two_larger_template s1 (format_billions (Num a)) u1 (to_fixed 2 (Num (a / b)))
             s2 (format_billions (Num b)) u2"
    by simp
  from one swapped show ?thesis ..
qed

theorem market_cap_swap_mirror_witness:
  "0 < (1000000000::real) \<and> 3/2 * 1000000000 < (3000000000::real) \<and>
   generateMarketCapComparisonCommentary (js ''AAPL'') (Num 3000000000) (js ''USD'') (js ''TSLA'') (Num 1000000000) (js ''USD'') =
     market_cap_one_larger_template (js ''AAPL'') (format_billions (Num 3000000000)) (js ''USD'')
       (to_fixed 2 (Num (3000000000 / 1000000000))) (js ''TSLA'') (format_billions (Num 1000000000)) (js ''USD'') \<and>
   generateMarketCapComparisonCommentary (js ''TSLA'') (Num 1000000000) (js ''USD'') (js ''AAPL'') (Num 3000000000) (js ''USD'') =
     market_cap_two_larger_template (js ''AAPL'') (format_billions (Num 3000000000)) (js ''USD'')
       (to_fixed 2 (Num (3000000000 / 1000000000))) (js ''TSLA'') (format_billions (Num 1000000000)) (js ''USD'')"
  using market_cap_swap_mirror [of 1000000000 3000000000] by simp

text \<open>C5. A zero market cap is not guarded: a zero second cap makes the ratio
  Infinity, a zero first cap makes the inverse ratio Infinity, and either way
  the sentence says "roughly Infinity times".\<close>

theorem market_cap_zero_denominator:
  assumes "0 < a"
  shows "generateMarketCapComparisonCommentary s1 (Num a) u1 s2 (Num 0) u2 =
           market_cap_one_larger_template s1 (format_billions (Num a)) u1 (js ''Infinity'') s2 (js ''0.00'') u2 \<and>
         generateMarketCapComparisonCommentary s1 (Num 0) u1 s2 (Num a) u2 =
           market_cap_two_larger_template s2 (format_billions (Num a)) u2 (js ''Infinity'') s1 (js ''0.00'') u1"
  using assms
  by (simp add: generateMarketCapComparisonCommentary_def Let_def format_billions_zero)

theorem market_cap_zero_denominator_witness:
  "0 < (5::real) \<and>
   generateMarketCapComparisonCommentary (js ''A'') (Num 5) (js ''USD'') (js ''B'') (Num 0) (js ''USD'') =
     market_cap_one_larger_template (js ''A'') (format_billions (Num 5)) (js ''USD'') (js ''Infinity'') (js ''B'') (js ''0.00'') (js ''USD'') \<and>
   generateMarketCapComparisonCommentary (js ''A'') (Num 0) (js ''USD'') (js ''B'') (Num 5) (js ''USD'') =
     market_cap_two_larger_template (js ''B'') (format_billions (Num 5)) (js ''USD'') (js ''Infinity'') (js ''A'') (js ''0.00'') (js ''USD'')"
  using market_cap_zero_denominator [of 5] by simp

subsection \<open>Beta\<close>

text \<open>C6. The beta generator uses the same thresholds as the market-cap one and,
  for positive betas outside the band \<open>[1/1.5, 0.67)\<close>, is the spec's
  classify-then-render with both betas to two decimals.\<close>

theorem beta_refines_spec:
  assumes "0 < b1" "0 < b2" "\<not> in_threshold_gap (b1 / b2)"
  shows "generateBetaComparisonCommentary s1 (Num b1) s2 (Num b2) =
         render_beta (spec_classify (b1 / b2)) s1 b1 s2 b2"
proof -
  have nz: "b2 \<noteq> 0" using assms by simp
  from spec_classify_outside_gap [OF assms(3)] show ?thesis
  proof (elim disjE conjE)
    assume h: "3/2 < b1 / b2" "spec_classify (b1 / b2) = A_DOMINANT"
    show ?thesis unfolding h(2) render_beta_def ratio_category.case
      by (rule beta_branch_one [OF nz h(1)])
  next
    assume h: "\<not> 3/2 < b1 / b2" "b1 / b2 < 67/100" "spec_classify (b1 / b2) = B_DOMINANT"
    show ?thesis unfolding h(3) render_beta_def ratio_category.case
      by (rule beta_branch_two [OF nz h(1) h(2)])
  next
    assume h: "\<not> 3/2 < b1 / b2" "\<not> b1 / b2 < 67/100" "spec_classify (b1 / b2) = COMPARABLE"
    show ?thesis unfolding h(3) render_beta_def ratio_category.case
      by (rule beta_branch_similar [OF nz h(1) h(2)])
  qed
qed

theorem beta_refines_spec_witness:
  "0 < (13/10::real) \<and> 0 < (1::real) \<and> \<not> in_threshold_gap (13/10 / 1) \<and>
   generateBetaComparisonCommentary (js ''AAPL'') (Num (13/10)) (js ''TSLA'') (Num 1) =
   render_beta (spec_classify (13/10 / 1)) (js ''AAPL'') (13/10) (js ''TSLA'') 1"
  using beta_refines_spec [of "13/10" 1] by (simp add: in_threshold_gap_def)

text \<open>C7. Betas can be negative, and the ratio rule does not account for it: with
  a positive first beta and a negative second one the sentence says the second
  stock "shows a higher beta", although its beta is the lower one.\<close>

theorem beta_negative_misreport:
  assumes "0 < b1" "b2 < 0"
  shows "generateBetaComparisonCommentary s1 (Num b1) s2 (Num b2) =
           beta_two_higher_template s2 (to_fixed 2 (Num b2)) s1 (to_fixed 2 (Num b1))"
proof -
  have "b1 / b2 < 0" using assms by (simp add: divide_pos_neg)
  then have "\<not> 3/2 < b1 / b2" "b1 / b2 < 67/100" by linarith+
  from beta_branch_two [OF _ this] assms show ?thesis
    by simp
qed

theorem beta_negative_misreport_witness:
  "0 < (1::real) \<and> (-1/2::real) < 0 \<and>
   generateBetaComparisonCommentary (js ''AAPL'') (Num 1) (js ''GLD'') (Num (-1/2)) =
     beta_two_higher_template (js ''GLD'') (js ''-0.50'') (js ''AAPL'') (js ''1.00'')"
proof -
  have "to_fixed 2 (Num (-1/2)) = js ''-0.50''" "to_fixed 2 (Num 1) = js ''1.00''"
    by (simp_all add: format_eval)
  then show ?thesis
    using beta_negative_misreport [of 1 "-1/2" "js ''AAPL''" "js ''GLD''"] by simp
qed

text \<open>C8. Equal betas always give the "similar volatility" sentence, with both
  betas printed alike: a non-zero beta gives the ratio 1, and two zero betas
  give \<open>0 / 0\<close>, NaN, for which both comparisons are false. This generalises
  the spec's scenario of two betas of 1.0.\<close>

theorem beta_equal_similar:
  "generateBetaComparisonCommentary s1 (Num b) s2 (Num b) =
   beta_similar_template s1 (to_fixed 2 (Num b)) s2 (to_fixed 2 (Num b))"
proof (cases "b = 0")
  case True
  then show ?thesis
    by (simp add: generateBetaComparisonCommentary_def Let_def del: to_fixed.simps)
next
  case False
  then have "\<not> 3/2 < b / b" "\<not> b / b < 67/100" by simp_all
  with False show ?thesis by (rule beta_branch_similar)
qed

subsection \<open>ADR status and the section\<close>

text \<open>C9. The ADR note is empty exactly when neither stock is an ADR; each of
  the other three combinations has its own non-empty sentence.\<close>

theorem adr_commentary_empty_iff:
  "generateAdrCommentary s1 a1 s2 a2 = [] \<longleftrightarrow> \<not> a1 \<and> \<not> a2"
  by (simp add: generateAdrCommentary_def template_defs)

text \<open>C10. If either profile fetch fails, whatever the failure (a thrown fetch,
  a \<open>null\<close> body, the API's error object, an empty array), the section is
  exactly the unavailable message: one paragraph, no commentary, no table.\<close>

theorem company_overview_unavailable_short_circuit:
  assumes "fetchCompanyProfileData r1 = None \<or> fetchCompanyProfileData r2 = None"
  shows "CompanyOverviewSection s1 s2 r1 r2 = company_overview_unavailable \<and>
         paragraphs (CompanyOverviewSection s1 s2 r1 r2) = [js ''Company overview data is currently unavailable.''] \<and>
         \<not> has_table (CompanyOverviewSection s1 s2 r1 r2)"
proof -
  have "CompanyOverviewSection s1 s2 r1 r2 = company_overview_unavailable"
    using assms by (auto simp: CompanyOverviewSection_def split: option.split)
  then show ?thesis
    by (simp add: company_overview_unavailable_def paragraphs_def has_table_def List.map_filter_def)
qed

theorem company_overview_unavailable_short_circuit_witness:
  "(fetchCompanyProfileData FetchFailed = None \<or> fetchCompanyProfileData (JsonArray []) = None) \<and>
   CompanyOverviewSection (js ''AAPL'') (js ''TSLA'') FetchFailed (JsonArray []) = company_overview_unavailable \<and>
   paragraphs (CompanyOverviewSection (js ''AAPL'') (js ''TSLA'') FetchFailed (JsonArray [])) =
     [js ''Company overview data is currently unavailable.''] \<and>
   \<not> has_table (CompanyOverviewSection (js ''AAPL'') (js ''TSLA'') FetchFailed (JsonArray []))"
proof -
  have h: "fetchCompanyProfileData FetchFailed = None \<or> fetchCompanyProfileData (JsonArray []) = None"
    by simp
  from company_overview_unavailable_short_circuit [OF h, of "js ''AAPL''" "js ''TSLA''"] h
  show ?thesis by blast
qed

text \<open>C11. With both profiles, the section's paragraphs are the market-cap
  sentence, the beta sentence, the ADR note only when it is non-empty, and the
  pointer to the table, in this order, followed by the comparison table.\<close>

theorem company_overview_layout:
  assumes "fetchCompanyProfileData r1 = Some p1" "fetchCompanyProfileData r2 = Some p2"
  shows "paragraphs (CompanyOverviewSection s1 s2 r1 r2) =
           [generateMarketCapComparisonCommentary s1 (marketCap p1) (currency p1) s2 (marketCap p2) (currency p2),
            generateBetaComparisonCommentary s1 (beta p1) s2 (beta p2)] @
           (if \<not> isAdr p1 \<and> \<not> isAdr p2 then []
            else [generateAdrCommentary s1 (isAdr p1) s2 (isAdr p2)]) @
           [js ''For a detailed comparison, please refer to the table below.'']
         \<and> has_table (CompanyOverviewSection s1 s2 r1 r2)"
  using assms
  by (simp add: CompanyOverviewSection_def paragraphs_def has_table_def List.map_filter_def Let_def
                generateAdrCommentary_def template_defs)

abbreviation sample_profile :: "real \<Rightarrow> real \<Rightarrow> bool \<Rightarrow> CompanyProfileData" where
  "sample_profile cap b adr \<equiv>
     \<lparr>companyName = js ''Example Inc.'', country = js ''US'', sector = js ''Technology'',
      industry = js ''Consumer Electronics'', ceo = js ''A. Person'', price = Num 200,
      marketCap = Num cap, beta = Num b, exchange = js ''NASDAQ'', ipoDate = js ''1980-12-12'',
      isAdr = adr, currency = js ''USD''\<rparr>"

theorem company_overview_layout_witness:
  "fetchCompanyProfileData (JsonArray [sample_profile 3000000000 1 False]) = Some (sample_profile 3000000000 1 False) \<and>
   fetchCompanyProfileData (JsonArray [sample_profile 1000000000 2 True]) = Some (sample_profile 1000000000 2 True) \<and>
   paragraphs (CompanyOverviewSection (js ''AAPL'') (js ''TSM'')
      (JsonArray [sample_profile 3000000000 1 False]) (JsonArray [sample_profile 1000000000 2 True])) =
     [generateMarketCapComparisonCommentary (js ''AAPL'') (Num 3000000000) (js ''USD'') (js ''TSM'') (Num 1000000000) (js ''USD''),
      generateBetaComparisonCommentary (js ''AAPL'') (Num 1) (js ''TSM'') (Num 2)] @
     (if \<not> False \<and> \<not> True then [] else [generateAdrCommentary (js ''AAPL'') False (js ''TSM'') True]) @
     [js ''For a detailed comparison, please refer to the table below.''] \<and>
   has_table (CompanyOverviewSection (js ''AAPL'') (js ''TSM'')
      (JsonArray [sample_profile 3000000000 1 False]) (JsonArray [sample_profile 1000000000 2 True]))"
proof -
  have h1: "fetchCompanyProfileData (JsonArray [sample_profile 3000000000 1 False]) = Some (sample_profile 3000000000 1 False)"
    and h2: "fetchCompanyProfileData (JsonArray [sample_profile 1000000000 2 True]) = Some (sample_profile 1000000000 2 True)"
    by simp_all
  from company_overview_layout [OF h1 h2, of "js ''AAPL''" "js ''TSM''"] h1 h2 show ?thesis
    by (simp only: CompanyProfileData.simps)
qed

text \<open>C12. The market-cap row of the table (the seventh row) shows, for each
  profile, the cap in billions as \<open>toFixed(2)\<close> with thousands separators,
  then " billion " and the currency: with the separators removed the cell is
  exactly that text. This generalises the spec's "1.50 billion USD".\<close>

theorem market_cap_cell_billions:
  assumes "marketCap p1 = Num v1" "marketCap p2 = Num v2" "\<bar>v1\<bar> < 10 ^ 30" "\<bar>v2\<bar> < 10 ^ 30"
    and "0x2C \<notin> set (currency p1)" "0x2C \<notin> set (currency p2)"
  shows "\<exists>c1 c2. company_overview_rows p1 p2 ! 6 = (js ''Market Cap'', CellText c1, CellText c2) \<and>
           filter (\<lambda>c. c \<noteq> 0x2C) c1 = to_fixed 2 (Num (v1 / 1000000000)) @ js '' billion '' @ currency p1 \<and>
           filter (\<lambda>c. c \<noteq> 0x2C) c2 = to_fixed 2 (Num (v2 / 1000000000)) @ js '' billion '' @ currency p2"
proof -
  have cell: "filter (\<lambda>c. c \<noteq> 0x2C) (format_billions (Num v) @ js '' billion '' @ u) =
                to_fixed 2 (Num (v / 1000000000)) @ js '' billion '' @ u"
    if "\<bar>v\<bar> < 10 ^ 30" "0x2C \<notin> set u" for v u
  proof -
    have "\<bar>v / 1000000000\<bar> < 10 ^ 21" using that(1) by simp
    then have "filter (\<lambda>c. c \<noteq> 0x2C) (format_billions (Num v)) = to_fixed 2 (Num (v / 1000000000))"
      unfolding format_billions_Num by (rule locale_2dp_strip_commas)
    moreover have "filter (\<lambda>c. c \<noteq> 0x2C) u = u" using that(2) by (auto intro: filter_True)
    ultimately show ?thesis by simp
  qed
  have "company_overview_rows p1 p2 ! 6 =
          (js ''Market Cap'', CellText (format_billions (marketCap p1) @ js '' billion '' @ currency p1),
           CellText (format_billions (marketCap p2) @ js '' billion '' @ currency p2))"
    by (simp add: company_overview_rows_def company_overview_fields_def)
  with cell [OF assms(3,5)] cell [OF assms(4,6)] assms(1,2) show ?thesis by simp
qed

theorem market_cap_cell_billions_witness:
  "marketCap (sample_profile 1500000000 1 False) = Num 1500000000 \<and>
   marketCap (sample_profile 1000000000 1 False) = Num 1000000000 \<and>
   \<bar>1500000000 :: real\<bar> < 10 ^ 30 \<and> \<bar>1000000000 :: real\<bar> < 10 ^ 30 \<and>
   0x2C \<notin> set (currency (sample_profile 1500000000 1 False)) \<and>
   0x2C \<notin> set (currency (sample_profile 1000000000 1 False)) \<and>
   (\<exists>c1 c2. company_overview_rows (sample_profile 1500000000 1 False) (sample_profile 1000000000 1 False) ! 6 =
        (js ''Market Cap'', CellText c1, CellText c2) \<and>
      filter (\<lambda>c. c \<noteq> 0x2C) c1 = js ''1.50 billion USD'' \<and>
      filter (\<lambda>c. c \<noteq> 0x2C) c2 = js ''1.00 billion USD'')"
proof -
  have h: "marketCap (sample_profile 1500000000 1 False) = Num 1500000000"
    "marketCap (sample_profile 1000000000 1 False) = Num 1000000000"
    "\<bar>1500000000 :: real\<bar> < 10 ^ 30" "\<bar>1000000000 :: real\<bar> < 10 ^ 30"
    "0x2C \<notin> set (currency (sample_profile 1500000000 1 False))"
    "0x2C \<notin> set (currency (sample_profile 1000000000 1 False))"
    by simp_all
  have f: "to_fixed 2 (Num (1500000000 / 1000000000)) @ js '' billion '' @ currency (sample_profile 1500000000 1 False) =
             js ''1.50 billion USD''"
          "to_fixed 2 (Num (1000000000 / 1000000000)) @ js '' billion '' @ currency (sample_profile 1000000000 1 False) =
             js ''1.00 billion USD''"
    by (simp_all add: format_eval)
  from market_cap_cell_billions [OF h] h f show ?thesis by metis
qed

text \<open>C13. The billions shown in the market-cap sentences and the table are
  \<open>toFixed(2)\<close> of the value in billions with thousands separators added:
  removing the commas gives exactly \<open>(v / 1e9).toFixed(2)\<close>.\<close>

theorem format_billions_strip_commas:
  assumes "\<bar>v\<bar> < 10 ^ 30"
  shows "filter (\<lambda>c. c \<noteq> 0x2C) (format_billions (Num v)) = to_fixed 2 (Num (v / 1000000000))"
proof -
  have "\<bar>v / 1000000000\<bar> < 10 ^ 21" using assms by simp
  then show ?thesis
    unfolding format_billions_Num by (rule locale_2dp_strip_commas)
qed

theorem format_billions_strip_commas_witness:
  "\<bar>(1234567890123::real)\<bar> < 10 ^ 30 \<and>
   filter (\<lambda>c. c \<noteq> 0x2C) (format_billions (Num 1234567890123)) = to_fixed 2 (Num (1234567890123 / 1000000000))"
  using format_billions_strip_commas [of 1234567890123] by simp

text \<open>C14. The spec's formatting contract for large currency values: a billions
  figure is an optional minus sign, a non-empty integer part, a point and
  exactly two digits.\<close>

theorem format_billions_two_decimals:
  assumes "\<bar>v\<bar> < 10 ^ 30"
  shows "\<exists>a b. format_billions (Num v) = (if v < 0 then js ''-'' else []) @ a @ js ''.'' @ b \<and>
           a \<noteq> [] \<and> length b = 2 \<and> set b \<subseteq> digit_units"
proof -
  define w where "w = v / 1000000000"
  obtain a b where ab: "split_fraction 2 (round_scaled 2 \<bar>w\<bar>) = (a, b)" by fastforce
  note props = split_fraction_props [OF ab]
  have "filter (\<lambda>c. c \<noteq> 0x2C) (group_thousands a) = a"
    using props(3) by (simp add: group_thousands_filter comma_not_digit)
  then have ne: "group_thousands a \<noteq> []" using props(2) by auto
  have "format_billions (Num v) = (if w < 0 then js ''-'' else []) @ locale_magnitude 2 2 \<bar>w\<bar>"
    by (simp only: format_billions_Num w_def locale_number.simps)
  also have "\<dots> = (if v < 0 then js ''-'' else []) @ group_thousands a @ js ''.'' @ b"
    unfolding locale_magnitude_2dp [OF ab] by (simp add: w_def)
  finally show ?thesis using ne props by auto
qed

theorem format_billions_two_decimals_witness:
  "\<bar>(-2500000000::real)\<bar> < 10 ^ 30 \<and>
   (\<exists>a b. format_billions (Num (-2500000000)) = (if (-2500000000::real) < 0 then js ''-'' else []) @ a @ js ''.'' @ b \<and>
           a \<noteq> [] \<and> length b = 2 \<and> set b \<subseteq> digit_units)"
  using format_billions_two_decimals [of "-2500000000"] by simp

end
