(* ===== verification/ParseFloat.thy ===== *)
theory ParseFloat
  imports NumberFormat
begin

text \<open>
  The string-to-number side the calculator relies on: \<open>String.prototype.trim\<close>
  and the global \<open>parseFloat\<close> (ECMAScript 19.2.4). \<open>parseFloat\<close> skips leading
  white space, takes the longest prefix that is a \<open>StrDecimalLiteral\<close> (an
  optional sign, then \<open>Infinity\<close> or digits with an optional fraction and an
  optional exponent) and returns its value, NaN when there is none. The value
  is exact, except that it overflows to an infinity and underflows to zero
  where a double does; rounding in between is not modelled.
\<close>

text \<open>WhiteSpace and LineTerminator code units of ECMAScript (the \<open>Zs\<close> category
  included).\<close>

definition is_js_whitespace :: "code_unit \<Rightarrow> bool" where
  "is_js_whitespace c =
     (c \<in> {0x09, 0x0A, 0x0B, 0x0C, 0x0D, 0x20, 0xA0, 0x1680, 0x2028, 0x2029,
           0x202F, 0x205F, 0x3000, 0xFEFF} \<or> (0x2000 \<le> c \<and> c \<le> 0x200A))"

definition trim_start :: "jstr \<Rightarrow> jstr" where
  "trim_start s = dropWhile is_js_whitespace s"

definition js_trim :: "jstr \<Rightarrow> jstr" where
  "js_trim s = rev (dropWhile is_js_whitespace (rev (dropWhile is_js_whitespace s)))"

definition is_digit_unit :: "code_unit \<Rightarrow> bool" where
  "is_digit_unit c = (0x30 \<le> c \<and> c \<le> 0x39)"

definition digit_val :: "code_unit \<Rightarrow> nat" where
  "digit_val c = unat c - 48"

definition read_nat :: "jstr \<Rightarrow> nat" where
  "read_nat ds = foldl (\<lambda>n c. 10 * n + digit_val c) 0 ds"

definition span_digits :: "jstr \<Rightarrow> jstr \<times> jstr" where
  "span_digits s = (takeWhile is_digit_unit s, dropWhile is_digit_unit s)"

text \<open>The exponent after \<open>e\<close> or \<open>E\<close>: a sign and at least one digit, else the
  exponent is not part of the literal.\<close>

definition parse_exponent :: "jstr \<Rightarrow> int" where
  "parse_exponent s =
     (let (neg, r) = (case s of c # r \<Rightarrow> if c = 0x2D then (True, r) else if c = 0x2B then (False, r)
                                          else (False, s)
                             | [] \<Rightarrow> (False, []));
          ds = takeWhile is_digit_unit r
      in if ds = [] then 0 else if neg then - int (read_nat ds) else int (read_nat ds))"

definition pow10_int :: "int \<Rightarrow> real" where
  "pow10_int e = (if 0 \<le> e then 10 ^ nat e else 1 / 10 ^ nat (- e))"

text \<open>Conversion of the exact value to a Number: beyond the largest double
  (rounding to nearest) it is an infinity, at or below half the least
  subnormal it is zero.\<close>

definition to_double_range :: "real \<Rightarrow> jsnum" where
  "to_double_range v =
     (if 2 ^ 1024 - 2 ^ 970 \<le> \<bar>v\<bar> then (if 0 < v then PosInf else NegInf)
      else if \<bar>v\<bar> * 2 ^ 1075 \<le> 1 then Num 0 else Num v)"

definition parse_unsigned :: "jstr \<Rightarrow> jsnum option" where
  "parse_unsigned s =
     (if take 8 s = js ''Infinity'' then Some PosInf
      else
        let (ip, r1) = span_digits s;
            (fp, r2) = (case r1 of c # r \<Rightarrow> if c = 0x2E then span_digits r else ([], r1)
                                 | [] \<Rightarrow> ([], []));
            e = (case r2 of c # r \<Rightarrow> if c = 0x65 \<or> c = 0x45 then parse_exponent r else 0
                          | [] \<Rightarrow> 0)
        in if ip = [] \<and> fp = [] then None
           else Some (to_double_range (real (read_nat (ip @ fp)) / 10 ^ length fp * pow10_int e)))"

definition parse_float :: "jstr \<Rightarrow> jsnum" where
  "parse_float s =
     (let t = trim_start s;
          unsigned = (\<lambda>r. case parse_unsigned r of None \<Rightarrow> NaN | Some v \<Rightarrow> v)
      in case t of
           c # r \<Rightarrow> if c = 0x2D then js_neg (unsigned r) else if c = 0x2B then unsigned r else unsigned t
         | [] \<Rightarrow> NaN)"

subsection \<open>Blank input\<close>

lemma js_trim_Nil_iff: "js_trim s = [] \<longleftrightarrow> trim_start s = []"
proof
  assume "trim_start s = []"
  then show "js_trim s = []" by (auto simp: js_trim_def trim_start_def dest: set_dropWhileD)
next
  assume t: "js_trim s = []"
  show "trim_start s = []"
  proof (cases "trim_start s")
    case (Cons c r)
    then have "\<not> is_js_whitespace c"
      unfolding trim_start_def by (metis dropWhile_eq_Cons_conv)
    with Cons t show ?thesis
      by (simp add: js_trim_def trim_start_def dropWhile_append split: if_splits)
  qed
qed

lemma parse_float_blank: "js_trim s = [] \<Longrightarrow> parse_float s = NaN"
  by (simp add: js_trim_Nil_iff parse_float_def)

text \<open>The unfoldings that evaluate \<open>parseFloat\<close> and \<open>trim\<close> on a literal.\<close>

lemmas parse_eval = parse_float_def trim_start_def parse_unsigned_def span_digits_def read_nat_def
  digit_val_def is_digit_unit_def pow10_int_def to_double_range_def is_js_whitespace_def
  parse_exponent_def js_trim_def

subsection \<open>Reading digits back\<close>

lemma is_digit_unit_unat: "is_digit_unit c \<longleftrightarrow> 48 \<le> unat c \<and> unat c \<le> 57"
  by (simp add: is_digit_unit_def word_le_nat_alt)

lemma digit_units_is_digit: "c \<in> digit_units \<Longrightarrow> is_digit_unit c"
  by (auto simp: is_digit_unit_unat)

lemma digit_val_digit_char [simp]: "d < 10 \<Longrightarrow> digit_val (digit_char d) = d"
  by (simp add: digit_val_def)

lemma not_whitespace_digit: "c \<in> digit_units \<Longrightarrow> \<not> is_js_whitespace c"
  using digit_units_unat [of c] by (auto simp: is_js_whitespace_def word_le_nat_alt)

lemma read_nat_append: "read_nat (xs @ ys) = read_nat xs * 10 ^ length ys + read_nat ys"
proof (induction ys rule: rev_induct)
  case Nil
  then show ?case by (simp add: read_nat_def)
next
  case (snoc y ys)
  then show ?case by (simp add: read_nat_def algebra_simps)
qed

lemma read_nat_single [simp]: "read_nat [c] = digit_val c"
  by (simp add: read_nat_def)

lemma read_nat_show_nat [simp]: "read_nat (show_nat n) = n"
proof (induction n rule: show_nat.induct)
  case (1 n)
  show ?case
  proof (cases "n < 10")
    case True
    then show ?thesis by (subst show_nat.simps) simp
  next
    case False
    then have "read_nat (show_nat (n div 10)) = n div 10" using "1.IH" by simp
    with False show ?thesis
      by (subst show_nat.simps) (simp add: read_nat_append)
  qed
qed

lemma read_nat_zeros [simp]: "read_nat (replicate k (digit_char 0)) = 0"
  by (induction k) (simp_all add: read_nat_def)

lemma read_split_fraction:
  "split_fraction f n = (a, b) \<Longrightarrow> read_nat (a @ b) = n"
  using split_fraction_props(4) by (fastforce simp: read_nat_append)

lemma span_digits_all:
  assumes "set xs \<subseteq> digit_units"
  shows "span_digits xs = (xs, [])"
proof -
  have "\<forall>x\<in>set xs. is_digit_unit x" using assms digit_units_is_digit by blast
  then show ?thesis by (simp add: span_digits_def)
qed

lemma span_digits_point:
  assumes "set xs \<subseteq> digit_units"
  shows "span_digits (xs @ 46 # ys) = (xs, 46 # ys)"
proof -
  have "\<forall>x\<in>set xs. is_digit_unit x" using assms digit_units_is_digit by blast
  then show ?thesis
    by (simp add: span_digits_def takeWhile_append2 dropWhile_append2 is_digit_unit_def)
qed

lemma not_infinity_prefix: "c \<in> digit_units \<Longrightarrow> take 8 (c # r) \<noteq> js ''Infinity''"
  using digit_units_unat [of c] by auto

lemma digit_not_whitespace: "is_digit_unit c \<Longrightarrow> \<not> is_js_whitespace c"
  by (auto simp: is_digit_unit_unat is_js_whitespace_def word_le_nat_alt)

lemma parse_float_literal_suffix:
  assumes "ds \<noteq> []" "list_all is_digit_unit ds"
    and "fr = [] \<or> (\<exists>fs. fr = 0x2E # fs \<and> list_all is_digit_unit fs)"
    and "\<not> is_digit_unit c" "c \<noteq> 0x2E" "c \<noteq> 0x65" "c \<noteq> 0x45"
  shows "parse_float (ds @ fr @ c # rest) = parse_float (ds @ fr)"
proof -
  obtain d ds' where ds: "ds = d # ds'" using assms(1) by (cases ds) auto
  have d: "is_digit_unit d" using assms(2) ds by simp
  then have nd: "\<not> is_js_whitespace d" "d \<noteq> 0x2D" "d \<noteq> 0x2B"
    by (auto simp: digit_not_whitespace is_digit_unit_def)
  have inf: "take 8 (ds @ fr @ c # rest) \<noteq> js ''Infinity''" "take 8 (ds @ fr) \<noteq> js ''Infinity''"
    using d unfolding ds by (auto simp: is_digit_unit_def)
  have trim: "trim_start (ds @ fr @ c # rest) = ds @ fr @ c # rest" "trim_start (ds @ fr) = ds @ fr"
    using nd(1) by (simp_all add: ds trim_start_def)
  have dot: "\<not> is_digit_unit 0x2E" by (simp add: is_digit_unit_def)
  have sp: "span_digits (xs @ y # ys) = (xs, y # ys)" "span_digits xs = (xs, [])"
    if "list_all is_digit_unit xs" "\<not> is_digit_unit y" for xs y ys
    using that by (simp_all add: span_digits_def takeWhile_append2 dropWhile_append2 list_all_iff)
  have "parse_unsigned (ds @ fr @ c # rest) = parse_unsigned (ds @ fr)"
    using assms(3)
  proof
    assume "fr = []"
    then show ?thesis using assms(2,4-7) inf sp [OF assms(2,4)] by (simp add: parse_unsigned_def)
  next
    assume "\<exists>fs. fr = 0x2E # fs \<and> list_all is_digit_unit fs"
    then obtain fs where fs: "fr = 0x2E # fs" "list_all is_digit_unit fs" by blast
    show ?thesis
      using assms(5-7) inf sp [OF assms(2) dot] sp [OF fs(2) assms(4)] sp(2) [OF fs(2)]
      unfolding fs by (simp add: parse_unsigned_def)
  qed
  with trim nd(2,3) show ?thesis
    by (simp add: parse_float_def ds)
qed

lemma plain_literal_ne: "ds \<noteq> [] \<Longrightarrow> list_all is_digit_unit ds \<Longrightarrow> js_trim (ds @ fr) \<noteq> []"
  by (cases ds) (auto simp: js_trim_Nil_iff trim_start_def digit_not_whitespace)

lemma to_double_range_exact:
  assumes "f \<le> 100" "real n / 10 ^ f < 10 ^ 21 + 1"
  shows "to_double_range (real n / 10 ^ f) = Num (real n / 10 ^ f)"
proof (cases "n = 0")
  case True
  then show ?thesis by (simp add: to_double_range_def)
next
  case False
  have big: "(10::real) ^ 21 + 1 < 2 ^ 1024 - 2 ^ 970" by simp
  have "(10::real) ^ f \<le> 10 ^ 100"
    by (rule power_increasing) (use assms(1) in simp_all)
  also have "(10::real) ^ 100 < 2 ^ 1075" by simp
  finally have "10 ^ f < (2::real) ^ 1075" .
  moreover have "1 \<le> real n" using False by simp
  ultimately have "10 ^ f < real n * 2 ^ 1075"
    by (smt (verit) mult_le_cancel_right1 zero_less_power)
  then have "\<not> \<bar>real n / 10 ^ f\<bar> * 2 ^ 1075 \<le> 1"
    by (simp add: field_simps)
  with assms(2) big show ?thesis
    by (simp add: to_double_range_def)
qed

lemma parse_unsigned_point:
  assumes "a \<noteq> []" "set (a @ b) \<subseteq> digit_units"
  shows "parse_unsigned (a @ 46 # b) =
           Some (to_double_range (real (read_nat (a @ b)) / 10 ^ length b))"
proof -
  obtain c r where a: "a = c # r" using assms(1) by (cases a) auto
  have "c \<in> digit_units" using assms(2) a by auto
  then have "take 8 (a @ 46 # b) \<noteq> js ''Infinity''"
    using not_infinity_prefix [of c "r @ 46 # b"] a by simp
  moreover have "span_digits (a @ 46 # b) = (a, 46 # b)"
    using assms(2) by (simp add: span_digits_point)
  moreover have "span_digits b = (b, [])"
    using assms(2) by (simp add: span_digits_all)
  ultimately show ?thesis
    using assms(1) by (simp add: parse_unsigned_def pow10_int_def)
qed

lemma parse_unsigned_int:
  assumes "a \<noteq> []" "set a \<subseteq> digit_units"
  shows "parse_unsigned a = Some (to_double_range (real (read_nat a)))"
proof -
  obtain c r where a: "a = c # r" using assms(1) by (cases a) auto
  have "c \<in> digit_units" using assms(2) a by auto
  then have "take 8 a \<noteq> js ''Infinity''"
    using not_infinity_prefix [of c r] a by simp
  moreover have "span_digits a = (a, [])"
    using assms(2) by (simp add: span_digits_all)
  ultimately show ?thesis
    using assms(1) by (simp add: parse_unsigned_def pow10_int_def)
qed

lemma parse_unsigned_fixed_magnitude:
  assumes "0 \<le> y" "y < 10 ^ 21" "f \<le> 100"
  shows "parse_unsigned (fixed_magnitude f y) = Some (Num (real (round_scaled f y) / 10 ^ f))"
    and "\<exists>c r. fixed_magnitude f y = c # r \<and> c \<in> digit_units"
proof -
  obtain a b where ab: "split_fraction f (round_scaled f y) = (a, b)" by fastforce
  note props = split_fraction_props [OF ab] and rd = read_split_fraction [OF ab]
  have fm: "fixed_magnitude f y = (if f = 0 then a else a @ js ''.'' @ b)"
    by (simp add: fixed_magnitude_def ab)
  have rng: "to_double_range (real (round_scaled f y) / 10 ^ f) = Num (real (round_scaled f y) / 10 ^ f)"
    by (rule to_double_range_exact [OF assms(3) round_scaled_value_bound [OF assms(1,2)]])
  show "parse_unsigned (fixed_magnitude f y) = Some (Num (real (round_scaled f y) / 10 ^ f))"
  proof (cases "f = 0")
    case True
    then have "fixed_magnitude f y = a" "b = []" using fm props(1) by simp_all
    with True props rd rng show ?thesis
      by (simp add: parse_unsigned_int)
  next
    case False
    with props rd rng show ?thesis
      by (simp add: fm parse_unsigned_point)
  qed
  obtain c r where "a = c # r" using props(2) by (cases a) auto
  with props(3) show "\<exists>c r. fixed_magnitude f y = c # r \<and> c \<in> digit_units"
    by (auto simp: fm)
qed

lemma parse_float_to_fixed:
  assumes "\<bar>x\<bar> < 10 ^ 21" "f \<le> 100"
  shows "parse_float (to_fixed f (Num x)) = Num (sgn x * (real (round_scaled f \<bar>x\<bar>) / 10 ^ f))"
proof -
  let ?v = "real (round_scaled f \<bar>x\<bar>) / 10 ^ f"
  have p: "parse_unsigned (fixed_magnitude f \<bar>x\<bar>) = Some (Num ?v)"
    using parse_unsigned_fixed_magnitude(1) [of "\<bar>x\<bar>" f] assms by simp
  obtain c r where m: "fixed_magnitude f \<bar>x\<bar> = c # r" "c \<in> digit_units"
    using parse_unsigned_fixed_magnitude(2) [of "\<bar>x\<bar>" f] assms by auto
  have c: "\<not> is_js_whitespace c" "c \<noteq> 0x2D" "c \<noteq> 0x2B"
    using not_whitespace_digit [OF m(2)] digit_units_unat [OF m(2)] by auto
  have z: "round_scaled f 0 = 0" by (simp add: round_scaled_def)
  show ?thesis
  proof (cases "x < 0")
    case True
    with assms p m c show ?thesis
      by (simp add: parse_float_def trim_start_def is_js_whitespace_def)
  next
    case False
    with assms p m c z show ?thesis
      by (cases "x = 0") (simp_all add: parse_float_def trim_start_def)
  qed
qed

text \<open>Round trip: reading \<open>x.toFixed(f)\<close> back with \<open>parseFloat\<close> gives a
  number within half a unit of the last printed place of \<open>x\<close>, for every
  finite \<open>x\<close> below \<open>10^21\<close> in magnitude and every precision \<open>toFixed\<close>
  accepts.\<close>

theorem to_fixed_parse_roundtrip:
  assumes "\<bar>x\<bar> < 10 ^ 21" and "f \<le> 100"
  shows "\<exists>v. parse_float (to_fixed f (Num x)) = Num v \<and> \<bar>v - x\<bar> \<le> 1 / (2 * 10 ^ f)"
proof -
  let ?n = "real (round_scaled f \<bar>x\<bar>) / 10 ^ f"
  have b: "\<bar>?n - \<bar>x\<bar>\<bar> \<le> 1 / (2 * 10 ^ f)"
    by (rule round_scaled_bound) simp
  have "\<bar>sgn x * ?n - x\<bar> = \<bar>?n - \<bar>x\<bar>\<bar> \<or> x = 0"
    by (cases "x < 0") (auto simp: abs_minus_commute)
  moreover have "x = 0 \<Longrightarrow> \<bar>sgn x * ?n - x\<bar> \<le> 1 / (2 * 10 ^ f)"
    by simp
  ultimately have "\<bar>sgn x * ?n - x\<bar> \<le> 1 / (2 * 10 ^ f)"
    using b by auto
  then show ?thesis
    using parse_float_to_fixed [OF assms] by blast
qed

end
