(* ===== verification/DividendComparison.thy ===== *)
theory DividendComparison
  imports Markup ParseFloat
begin

text \<open>
  The Chinese dividend section,
  \<open>src/app/zh/stock-comparisons/[slug]/components/DividendComparisonSection.tsx\<close>:
  \<open>fetchDividendData\<close>, \<open>generateDividendYieldCommentary\<close> with its
  presence categories and the relative-gap callout, and the section with its
  one-row table. The Chinese sentence templates are written as UTF-16 code
  units, one definition per template; the comments give their English sense.
\<close>

record DividendData =
  symbol :: jstr
  dividendYieldTTM :: jsnum

text \<open>The early returns of the fetch: a \<open>null\<close> body or an empty array gives
  \<open>null\<close>; on the API's error object \<open>dividendData\<close> is \<open>undefined\<close> and reading
  its \<open>symbol\<close> throws, which the \<open>catch\<close> turns into \<open>null\<close>.\<close>

fun fetchDividendData :: "DividendData json_response \<Rightarrow> DividendData option" where
  "fetchDividendData FetchFailed = None"
| "fetchDividendData JsonNull = None"
| "fetchDividendData JsonObject = None"
| "fetchDividendData (JsonArray []) = None"
| "fetchDividendData (JsonArray (dividendData # _)) =
     Some \<lparr>symbol = symbol dividendData, dividendYieldTTM = dividendYieldTTM dividendData\<rparr>"

datatype DividendYieldCategory = Category_None | Category_Has

definition DIVIDEND_YIELD_THRESHOLD_NONE :: jsnum where
  "DIVIDEND_YIELD_THRESHOLD_NONE = Num 0"

definition DIVIDEND_THRESHOLD_SIGNIFICANT_RELATIVE_GAP :: jsnum where
  "DIVIDEND_THRESHOLD_SIGNIFICANT_RELATIVE_GAP = Num (1/2)"

definition getDividendYieldCategory :: "jsnum \<Rightarrow> DividendYieldCategory" where
  "getDividendYieldCategory dividendYield =
     (if js_le dividendYield DIVIDEND_YIELD_THRESHOLD_NONE then Category_None else Category_Has)"

text \<open>"Neither pays a dividend; profits are mainly reinvested, \<dots>"\<close>

definition dividend_neither_template :: "jstr \<Rightarrow> jstr \<Rightarrow> jstr" where
  [template_defs]: "dividend_neither_template stockOneSymbol stockTwoSymbol =
   stockOneSymbol @ js '' '' @ [0x548C] @ js '' '' @ stockTwoSymbol @ js '' '' @ [0x5747, 0x4E0D, 0x652F, 0x4ED8, 0x80A1, 0x606F, 0xFF0C, 0x5229, 0x6DA6, 0x4E3B, 0x8981, 0x7528, 0x4E8E, 0x518D, 0x6295, 0x8D44, 0xFF0C, 0x53EF, 0x80FD, 0x4F18, 0x5148, 0x8003, 0x8651, 0x4E1A, 0x52A1, 0x6269, 0x5C55, 0x6216, 0x957F, 0x671F, 0x589E, 0x957F, 0x800C, 0x975E, 0x77ED, 0x671F, 0x80A1, 0x4E1C, 0x56DE, 0x62A5, 0x3002]"

text \<open>"The first pays no dividend, \<dots> while the second's dividend yield is y%, \<dots>"\<close>

definition dividend_two_only_template :: "jstr \<Rightarrow> jstr \<Rightarrow> jstr \<Rightarrow> jstr" where
  [template_defs]: "dividend_two_only_template stockOneSymbol stockTwoSymbol stockTwoDividendYield =
   stockOneSymbol @ js '' '' @ [0x4E0D, 0x652F, 0x4ED8, 0x80A1, 0x606F, 0xFF0C, 0x5229, 0x6DA6, 0x66F4, 0x591A, 0x7528, 0x4E8E, 0x652F, 0x6301, 0x516C, 0x53F8, 0x53D1, 0x5C55, 0xFF0C, 0x9002, 0x5408, 0x8FFD, 0x6C42, 0x8D44, 0x672C, 0x589E, 0x503C, 0x7684, 0x6295, 0x8D44, 0x8005, 0x3002, 0x800C] @ js '' '' @ stockTwoSymbol @ js '' '' @ [0x7684, 0x80A1, 0x606F, 0x7387, 0x4E3A] @ js '' '' @ stockTwoDividendYield @ js ''%'' @ [0xFF0C, 0x901A, 0x8FC7, 0x5206, 0x7EA2, 0x76F4, 0x63A5, 0x56DE, 0x62A5, 0x80A1, 0x4E1C, 0xFF0C, 0x53CD, 0x6620, 0x51FA, 0x8F83, 0x7A33, 0x5B9A, 0x7684, 0x76C8, 0x5229, 0x80FD, 0x529B, 0xFF0C, 0x4E24, 0x8005, 0x7B56, 0x7565, 0x5F62, 0x6210, 0x5BF9, 0x6BD4, 0x3002]"

text \<open>"The first's dividend yield is y%, \<dots>; the second pays no dividend, \<dots>"\<close>

definition dividend_one_only_template :: "jstr \<Rightarrow> jstr \<Rightarrow> jstr \<Rightarrow> jstr" where
  [template_defs]: "dividend_one_only_template stockOneSymbol stockOneDividendYield stockTwoSymbol =
   stockOneSymbol @ js '' '' @ [0x7684, 0x80A1, 0x606F, 0x7387, 0x4E3A] @ js '' '' @ stockOneDividendYield @ js ''%'' @ [0xFF0C, 0x5728, 0x56DE, 0x62A5, 0x80A1, 0x4E1C, 0x7684, 0x540C, 0x65F6, 0x517C, 0x987E, 0x589E, 0x957F, 0xFF1B, 0x800C] @ js '' '' @ stockTwoSymbol @ js '' '' @ [0x4E0D, 0x652F, 0x4ED8, 0x80A1, 0x606F, 0xFF0C, 0x5229, 0x6DA6, 0x4E3B, 0x8981, 0x6295, 0x5165, 0x672A, 0x6765, 0x53D1, 0x5C55, 0xFF0C, 0x5982, 0x4E1A, 0x52A1, 0x6269, 0x5C55, 0x6216, 0x7814, 0x53D1, 0xFF0C, 0x4F53, 0x73B0, 0x51FA, 0x4E0D, 0x540C, 0x7684, 0x7ECF, 0x8425, 0x7B56, 0x7565, 0x3002]"

text \<open>"The first's dividend yield is y1%, the second's y2%; both balance \<dots>"\<close>

definition dividend_base_template :: "jstr \<Rightarrow> jstr \<Rightarrow> jstr \<Rightarrow> jstr \<Rightarrow> jstr" where
  [template_defs]: "dividend_base_template stockOneSymbol stockOneDividendYield stockTwoSymbol stockTwoDividendYield =
   stockOneSymbol @ js '' '' @ [0x7684, 0x80A1, 0x606F, 0x7387, 0x4E3A] @ js '' '' @ stockOneDividendYield @ js ''%'' @ [0xFF0C] @ stockTwoSymbol @ js '' '' @ [0x4E3A] @ js '' '' @ stockTwoDividendYield @ js ''%'' @ [0xFF0C, 0x4E24, 0x8005, 0x5747, 0x5728, 0x80A1, 0x4E1C, 0x56DE, 0x62A5, 0x4E0E, 0x516C, 0x53F8, 0x53D1, 0x5C55, 0x4E4B, 0x95F4, 0x53D6, 0x5F97, 0x5E73, 0x8861, 0x3002]"

text \<open>"\<dots> Of the two, the higher one's yield reaches y%, about p% above the lower
  one, \<dots>"\<close>

definition dividend_gap_template :: "jstr \<Rightarrow> jstr \<Rightarrow> jstr \<Rightarrow> jstr \<Rightarrow> jstr \<Rightarrow> jstr" where
  [template_defs]: "dividend_gap_template baseCommentary higherStock higherYieldValue lowerStock percentageDifference =
   baseCommentary @ js '' '' @ [0x5176, 0x4E2D, 0xFF0C] @ higherStock @ js '' '' @ [0x7684, 0x80A1, 0x606F, 0x7387, 0x8FBE] @ js '' '' @ higherYieldValue @ js ''%'' @ [0xFF0C, 0x9AD8, 0x51FA] @ js '' '' @ lowerStock @ js '' '' @ [0x7EA6] @ js '' '' @ percentageDifference @ js ''%'' @ [0xFF0C, 0x663E, 0x793A, 0x5176, 0x66F4, 0x503E, 0x5411, 0x4E8E, 0x56DE, 0x62A5, 0x80A1, 0x4E1C, 0xFF0C, 0x800C] @ js '' '' @ lowerStock @ js '' '' @ [0x5219, 0x66F4, 0x591A, 0x4FDD, 0x7559, 0x5229, 0x6DA6, 0x7528, 0x4E8E, 0x53D1, 0x5C55, 0x3002]"

text \<open>"\<dots> The gap between the yields is small, \<dots>"\<close>

definition dividend_similar_template :: "jstr \<Rightarrow> jstr" where
  [template_defs]: "dividend_similar_template baseCommentary =
   baseCommentary @ js '' '' @ [0x4E24, 0x8005, 0x7684, 0x80A1, 0x606F, 0x7387, 0x5DEE, 0x8DDD, 0x8F83, 0x5C0F, 0xFF0C, 0x663E, 0x793A, 0x51FA, 0x76F8, 0x4F3C, 0x7684, 0x5206, 0x7EA2, 0x4E0E, 0x589E, 0x957F, 0x7B56, 0x7565, 0x3002]"

definition generateDividendYieldCommentary :: "jstr \<Rightarrow> jsnum \<Rightarrow> jstr \<Rightarrow> jsnum \<Rightarrow> jstr" where
  "generateDividendYieldCommentary stockOneSymbol stockOneDividendYield stockTwoSymbol stockTwoDividendYield =
   (let stockOneCategory = getDividendYieldCategory stockOneDividendYield;
        stockTwoCategory = getDividendYieldCategory stockTwoDividendYield
    in if stockOneCategory = Category_None \<and> stockTwoCategory = Category_None then
         dividend_neither_template stockOneSymbol stockTwoSymbol
       else if stockOneCategory = Category_None \<and> stockTwoCategory = Category_Has then
         dividend_two_only_template stockOneSymbol stockTwoSymbol (to_fixed 2 stockTwoDividendYield)
       else if stockOneCategory = Category_Has \<and> stockTwoCategory = Category_None then
         dividend_one_only_template stockOneSymbol (to_fixed 2 stockOneDividendYield) stockTwoSymbol
       else if stockOneCategory = Category_Has \<and> stockTwoCategory = Category_Has then
         (let baseCommentary = dividend_base_template stockOneSymbol (to_fixed 2 stockOneDividendYield)
                stockTwoSymbol (to_fixed 2 stockTwoDividendYield);
              higherYield = js_max stockOneDividendYield stockTwoDividendYield;
              lowerYield = js_min stockOneDividendYield stockTwoDividendYield;
              relativeDifference = js_div (js_sub higherYield lowerYield) lowerYield;
              percentageDifference = to_fixed 0 (js_mul relativeDifference (Num 100))
          in if js_less DIVIDEND_THRESHOLD_SIGNIFICANT_RELATIVE_GAP relativeDifference then
               (let higherStock = (if js_less stockTwoDividendYield stockOneDividendYield
                                   then stockOneSymbol else stockTwoSymbol);
                    lowerStock = (if js_less stockTwoDividendYield stockOneDividendYield
                                  then stockTwoSymbol else stockOneSymbol);
                    higherYieldValue = to_fixed 2 higherYield
                in dividend_gap_template baseCommentary higherStock higherYieldValue lowerStock
                     percentageDifference)
             else dividend_similar_template baseCommentary)
       else [])"

text \<open>The table cell: \<open>(dividendYieldTTM * 100).toFixed(2)\<close> followed by \<open>%\<close>.\<close>

definition dividend_yield_cell :: "jsnum \<Rightarrow> jstr" where
  "dividend_yield_cell yieldTTM = to_fixed 2 (js_mul yieldTTM (Num 100)) @ js ''%''"

definition dividend_unavailable :: rendered_section where
  "dividend_unavailable =
   \<lparr>ariaLabelledby = js ''dividend-comparison'',
    children = [H2 (js ''dividend-comparison'') [0x80A1, 0x606F, 0x6BD4, 0x8F83],
                P [0x6682, 0x65F6, 0x65E0, 0x6CD5, 0x52A0, 0x8F7D, 0x80A1, 0x606F, 0x6570, 0x636E, 0x3002]]\<rparr>"

definition DividendComparisonSection ::
  "jstr \<Rightarrow> jstr \<Rightarrow> DividendData json_response \<Rightarrow> DividendData json_response \<Rightarrow> rendered_section" where
  "DividendComparisonSection stockOneSymbol stockTwoSymbol responseOne responseTwo =
   (case (fetchDividendData responseOne, fetchDividendData responseTwo) of
      (Some stockOneDividendData, Some stockTwoDividendData) \<Rightarrow>
        (let dividendYieldCommentary = generateDividendYieldCommentary
               stockOneSymbol (dividendYieldTTM stockOneDividendData)
               stockTwoSymbol (dividendYieldTTM stockTwoDividendData)
         in \<lparr>ariaLabelledby = js ''dividend-comparison'',
             children =
               [H2 (js ''dividend-comparison'') [0x80A1, 0x606F, 0x6BD4, 0x8F83],
                P dividendYieldCommentary,
                Table ([0x4EE3, 0x7801], stockOneSymbol, stockTwoSymbol)
                  [([0x80A1, 0x606F, 0x7387] @ js '' (TTM)'',
                    CellText (dividend_yield_cell (dividendYieldTTM stockOneDividendData)),
                    CellText (dividend_yield_cell (dividendYieldTTM stockTwoDividendData)))]]\<rparr>)
    | _ \<Rightarrow> dividend_unavailable)"

subsection \<open>Branch lemmas\<close>

lemmas format_eval = show_nat.simps round_scaled_def split_fraction_def fixed_magnitude_def
  locale_magnitude_def digit_char_def group_thousands.simps Let_def

lemma category_Num [simp]:
  "getDividendYieldCategory (Num a) = (if a \<le> 0 then Category_None else Category_Has)"
  by (simp add: getDividendYieldCategory_def DIVIDEND_YIELD_THRESHOLD_NONE_def)

lemma category_cases:
  "getDividendYieldCategory y = Category_None \<or> getDividendYieldCategory y = Category_Has"
  by (simp add: getDividendYieldCategory_def)

text \<open>Both yields positive: the base sentence, then the callout when the relative
  gap \<open>(max - min) / min\<close> exceeds one half.\<close>

lemma dividend_both_positive:
  assumes "0 < a" "0 < b"
  shows "generateDividendYieldCommentary s1 (Num a) s2 (Num b) =
   (let base = dividend_base_template s1 (to_fixed 2 (Num a)) s2 (to_fixed 2 (Num b));
        rel = (max a b - min a b) / min a b
    in if 1/2 < rel then
         dividend_gap_template base (if b < a then s1 else s2) (to_fixed 2 (Num (max a b)))
           (if b < a then s2 else s1) (to_fixed 0 (Num (rel * 100)))
       else dividend_similar_template base)"
proof -
  have "min a b \<noteq> 0" using assms by simp
  with assms show ?thesis
    by (simp add: generateDividendYieldCommentary_def DIVIDEND_THRESHOLD_SIGNIFICANT_RELATIVE_GAP_def
                  Let_def del: to_fixed.simps)
qed

subsection \<open>Properties of the dividend commentary\<close>

text \<open>C15. Presence classification and totality: a yield is "None" exactly when
  it is zero or negative, and NaN (a missing or non-numeric yield) counts as
  "Has". The two categories cover every input, so for every pair of yields one
  of the four branches returns a non-empty sentence and the final empty-string
  return is unreachable.\<close>

theorem dividend_commentary_total:
  "(getDividendYieldCategory (Num v) = Category_None \<longleftrightarrow> v \<le> 0) \<and>
   getDividendYieldCategory NaN = Category_Has \<and>
   generateDividendYieldCommentary s1 y1 s2 y2 \<noteq> []"
  using category_cases [of y1] category_cases [of y2]
  by (auto simp: generateDividendYieldCommentary_def getDividendYieldCategory_def
                 DIVIDEND_YIELD_THRESHOLD_NONE_def Let_def template_defs)

text \<open>C16. The gap threshold is strict: a relative gap of exactly one half (one
  yield 1.5 times the other) gives the "small gap" sentence, not the callout,
  and a gap of 0.51 gives the callout, naming the higher yield and "51".\<close>

theorem dividend_gap_threshold:
  assumes "0 < b"
  shows "generateDividendYieldCommentary s1 (Num (3/2 * b)) s2 (Num b) =
           dividend_similar_template
             (dividend_base_template s1 (to_fixed 2 (Num (3/2 * b))) s2 (to_fixed 2 (Num b))) \<and>
         generateDividendYieldCommentary s1 (Num (151/100 * b)) s2 (Num b) =
           dividend_gap_template
             (dividend_base_template s1 (to_fixed 2 (Num (151/100 * b))) s2 (to_fixed 2 (Num b)))
             s1 (to_fixed 2 (Num (151/100 * b))) s2 (to_fixed 0 (Num 51))"
proof -
  have r1: "(max (3/2 * b) b - min (3/2 * b) b) / min (3/2 * b) b = 1/2"
    using assms by (simp add: max_def min_def field_simps)
  have r2: "(max (151/100 * b) b - min (151/100 * b) b) / min (151/100 * b) b = 51/100"
    using assms by (simp add: max_def min_def field_simps)
  have m: "max (151/100 * b) b = 151/100 * b" "b < 151/100 * b" using assms by simp_all
  show ?thesis
    using assms r1 r2 m by (simp add: dividend_both_positive Let_def del: to_fixed.simps)
qed

theorem dividend_gap_threshold_witness:
  "0 < (2::real) \<and>
   generateDividendYieldCommentary (js ''AAPL'') (Num (3/2 * 2)) (js ''TSLA'') (Num 2) =
     dividend_similar_template
       (dividend_base_template (js ''AAPL'') (to_fixed 2 (Num (3/2 * 2))) (js ''TSLA'') (to_fixed 2 (Num 2))) \<and>
   generateDividendYieldCommentary (js ''AAPL'') (Num (151/100 * 2)) (js ''TSLA'') (Num 2) =
     dividend_gap_template
       (dividend_base_template (js ''AAPL'') (to_fixed 2 (Num (151/100 * 2))) (js ''TSLA'') (to_fixed 2 (Num 2)))
       (js ''AAPL'') (to_fixed 2 (Num (151/100 * 2))) (js ''TSLA'') (to_fixed 0 (Num 51))"
proof -
  have h: "0 < (2::real)" by simp
  from dividend_gap_threshold [OF h, of "js ''AAPL''" "js ''TSLA''"] h show ?thesis by blast
qed

text \<open>C17. Above the threshold the callout names the stock with the larger yield
  as the higher one, with its yield and the relative gap in percent, whichever
  argument position it is in.\<close>

theorem dividend_gap_names_higher:
  assumes "0 < b" "3/2 * b < a"
  shows "generateDividendYieldCommentary s1 (Num a) s2 (Num b) =
           dividend_gap_template (dividend_base_template s1 (to_fixed 2 (Num a)) s2 (to_fixed 2 (Num b)))
             s1 (to_fixed 2 (Num a)) s2 (to_fixed 0 (Num ((a - b) / b * 100))) \<and>
         generateDividendYieldCommentary s2 (Num b) s1 (Num a) =
           dividend_gap_template (dividend_base_template s2 (to_fixed 2 (Num b)) s1 (to_fixed 2 (Num a)))
             s1 (to_fixed 2 (Num a)) s2 (to_fixed 0 (Num ((a - b) / b * 100)))"
proof -
  have ab: "b < a" "0 < a" using assms by linarith+
  have rel: "1/2 < (a - b) / b" using assms by (simp add: field_simps)
  have mm: "max a b = a" "min a b = b" "max b a = a" "min b a = b" using ab by simp_all
  show ?thesis
    using assms ab rel
    by (simp add: dividend_both_positive Let_def mm del: to_fixed.simps)
qed

theorem dividend_gap_names_higher_witness:
  "0 < (1::real) \<and> 3/2 * 1 < (3::real) \<and>
   generateDividendYieldCommentary (js ''AAPL'') (Num 3) (js ''TSLA'') (Num 1) =
     dividend_gap_template (dividend_base_template (js ''AAPL'') (to_fixed 2 (Num 3)) (js ''TSLA'') (to_fixed 2 (Num 1)))
       (js ''AAPL'') (to_fixed 2 (Num 3)) (js ''TSLA'') (to_fixed 0 (Num ((3 - 1) / 1 * 100))) \<and>
   generateDividendYieldCommentary (js ''TSLA'') (Num 1) (js ''AAPL'') (Num 3) =
     dividend_gap_template (dividend_base_template (js ''TSLA'') (to_fixed 2 (Num 1)) (js ''AAPL'') (to_fixed 2 (Num 3)))
       (js ''AAPL'') (to_fixed 2 (Num 3)) (js ''TSLA'') (to_fixed 0 (Num ((3 - 1) / 1 * 100)))"
  using dividend_gap_names_higher [of 1 3 "js ''AAPL''" "js ''TSLA''"] by simp

text \<open>C18. When neither stock pays a dividend (a yield of zero or below), the
  sentence shows no percentage: it contains no \<open>%\<close> beyond any in the
  symbols.\<close>

theorem dividend_neither_no_percent:
  assumes "js_le y1 (Num 0)" "js_le y2 (Num 0)" "0x25 \<notin> set s1" "0x25 \<notin> set s2"
  shows "0x25 \<notin> set (generateDividendYieldCommentary s1 y1 s2 y2)"
  using assms
  by (simp add: generateDividendYieldCommentary_def getDividendYieldCategory_def
                DIVIDEND_YIELD_THRESHOLD_NONE_def template_defs)

theorem dividend_neither_no_percent_witness:
  "js_le (Num 0) (Num 0) \<and> js_le (Num (-1)) (Num 0) \<and>
   (0x25::code_unit) \<notin> set (js ''AAPL'') \<and> (0x25::code_unit) \<notin> set (js ''TSLA'') \<and>
   (0x25::code_unit) \<notin> set (generateDividendYieldCommentary (js ''AAPL'') (Num 0) (js ''TSLA'') (Num (-1)))"
proof -
  have h: "js_le (Num 0) (Num 0)" "js_le (Num (-1)) (Num 0)"
    "(0x25::code_unit) \<notin> set (js ''AAPL'')" "(0x25::code_unit) \<notin> set (js ''TSLA'')"
    by simp_all
  from dividend_neither_no_percent [OF h] h show ?thesis by blast
qed

text \<open>C19. The table and the sentence read \<open>dividendYieldTTM\<close> in different units.
  For every yield \<open>y\<close> from 0.001 up (below \<open>10^18\<close>), when only the first
  stock pays, the sentence prints \<open>y.toFixed(2)\<close> before its \<open>%\<close> while the
  table cell prints \<open>(y * 100).toFixed(2)\<close>: read back, the two numbers are
  \<open>100 y\<close> and \<open>y\<close> to two decimals, and they differ.\<close>

theorem dividend_units_divergence:
  assumes "1/1000 \<le> y" "y < 10 ^ 18" "z \<le> 0"
  shows "generateDividendYieldCommentary s1 (Num y) s2 (Num z) =
           dividend_one_only_template s1 (to_fixed 2 (Num y)) s2 \<and>
         dividend_yield_cell (Num y) = to_fixed 2 (Num (y * 100)) @ js ''%'' \<and>
         (\<exists>u v. parse_float (to_fixed 2 (Num (y * 100))) = Num u \<and>
                parse_float (to_fixed 2 (Num y)) = Num v \<and>
                \<bar>u - 100 * y\<bar> \<le> 1 / 200 \<and> \<bar>v - y\<bar> \<le> 1 / 200 \<and> u \<noteq> v)"
proof -
  have gen: "generateDividendYieldCommentary s1 (Num y) s2 (Num z) =
               dividend_one_only_template s1 (to_fixed 2 (Num y)) s2"
    using assms by (simp add: generateDividendYieldCommentary_def del: to_fixed.simps)
  have cell: "dividend_yield_cell (Num y) = to_fixed 2 (Num (y * 100)) @ js ''%''"
    by (simp add: dividend_yield_cell_def del: to_fixed.simps)
  obtain u where u: "parse_float (to_fixed 2 (Num (y * 100))) = Num u" "\<bar>u - y * 100\<bar> \<le> 1 / (2 * 10 ^ 2)"
    using to_fixed_parse_roundtrip [of "y * 100" 2] assms by auto
  obtain v where v: "parse_float (to_fixed 2 (Num y)) = Num v" "\<bar>v - y\<bar> \<le> 1 / (2 * 10 ^ 2)"
    using to_fixed_parse_roundtrip [of y 2] assms by auto
  have "u \<noteq> v" using u(2) v(2) assms(1) unfolding abs_le_iff power2_eq_square by linarith
  with gen cell u v show ?thesis by (auto simp: mult.commute simp del: to_fixed.simps)
qed

theorem dividend_units_divergence_witness:
  "1/1000 \<le> (5/1000 :: real) \<and> (5/1000 :: real) < 10 ^ 18 \<and> (0 :: real) \<le> 0 \<and>
   generateDividendYieldCommentary (js ''AAPL'') (Num (5/1000)) (js ''TSLA'') (Num 0) =
     dividend_one_only_template (js ''AAPL'') (to_fixed 2 (Num (5/1000))) (js ''TSLA'') \<and>
   dividend_yield_cell (Num (5/1000)) = to_fixed 2 (Num (5/1000 * 100)) @ js ''%'' \<and>
   (\<exists>u v. parse_float (to_fixed 2 (Num (5/1000 * 100))) = Num u \<and>
          parse_float (to_fixed 2 (Num (5/1000))) = Num v \<and>
          \<bar>u - 100 * (5/1000)\<bar> \<le> 1 / 200 \<and> \<bar>v - 5/1000\<bar> \<le> 1 / 200 \<and> u \<noteq> v)"
proof -
  have h: "1/1000 \<le> (5/1000 :: real)" "(5/1000 :: real) < 10 ^ 18" "(0 :: real) \<le> 0" by simp_all
  from dividend_units_divergence [OF h, of "js ''AAPL''" "js ''TSLA''"] h show ?thesis by blast
qed

subsection \<open>The section\<close>

text \<open>C20. If either dividend fetch yields no record, the section is exactly the
  unavailable message: no commentary and no table.\<close>

theorem dividend_section_unavailable_short_circuit:
  assumes "fetchDividendData r1 = None \<or> fetchDividendData r2 = None"
  shows "DividendComparisonSection s1 s2 r1 r2 = dividend_unavailable \<and>
         paragraphs (DividendComparisonSection s1 s2 r1 r2) =
           [[0x6682, 0x65F6, 0x65E0, 0x6CD5, 0x52A0, 0x8F7D, 0x80A1, 0x606F, 0x6570, 0x636E, 0x3002]] \<and>
         \<not> has_table (DividendComparisonSection s1 s2 r1 r2)"
proof -
  have "DividendComparisonSection s1 s2 r1 r2 = dividend_unavailable"
    using assms by (auto simp: DividendComparisonSection_def split: option.split)
  then show ?thesis
    by (simp add: dividend_unavailable_def paragraphs_def has_table_def List.map_filter_def)
qed

theorem dividend_section_unavailable_short_circuit_witness:
  "(fetchDividendData JsonObject = None \<or> fetchDividendData (JsonArray []) = None) \<and>
   DividendComparisonSection (js ''AAPL'') (js ''TSLA'') JsonObject (JsonArray []) = dividend_unavailable \<and>
   paragraphs (DividendComparisonSection (js ''AAPL'') (js ''TSLA'') JsonObject (JsonArray [])) =
     [[0x6682, 0x65F6, 0x65E0, 0x6CD5, 0x52A0, 0x8F7D, 0x80A1, 0x606F, 0x6570, 0x636E, 0x3002]] \<and>
   \<not> has_table (DividendComparisonSection (js ''AAPL'') (js ''TSLA'') JsonObject (JsonArray []))"
proof -
  have h: "fetchDividendData JsonObject = None \<or> fetchDividendData (JsonArray []) = None"
    by simp
  from dividend_section_unavailable_short_circuit [OF h, of "js ''AAPL''" "js ''TSLA''"] h
  show ?thesis by blast
qed

text \<open>C21. With both records, the section has exactly one paragraph, the
  commentary on the two fetched yields, and the one-row yield table.\<close>

theorem dividend_section_layout:
  assumes "fetchDividendData r1 = Some d1" "fetchDividendData r2 = Some d2"
  shows "paragraphs (DividendComparisonSection s1 s2 r1 r2) =
           [generateDividendYieldCommentary s1 (dividendYieldTTM d1) s2 (dividendYieldTTM d2)] \<and>
         has_table (DividendComparisonSection s1 s2 r1 r2)"
  using assms
  by (simp add: DividendComparisonSection_def paragraphs_def has_table_def List.map_filter_def Let_def)

theorem dividend_section_layout_witness:
  "fetchDividendData (JsonArray [\<lparr>symbol = js ''AAPL'', dividendYieldTTM = Num 3\<rparr>]) =
     Some \<lparr>symbol = js ''AAPL'', dividendYieldTTM = Num 3\<rparr> \<and>
   fetchDividendData (JsonArray [\<lparr>symbol = js ''TSLA'', dividendYieldTTM = Num 1\<rparr>]) =
     Some \<lparr>symbol = js ''TSLA'', dividendYieldTTM = Num 1\<rparr> \<and>
   paragraphs (DividendComparisonSection (js ''AAPL'') (js ''TSLA'')
      (JsonArray [\<lparr>symbol = js ''AAPL'', dividendYieldTTM = Num 3\<rparr>])
      (JsonArray [\<lparr>symbol = js ''TSLA'', dividendYieldTTM = Num 1\<rparr>])) =
     [generateDividendYieldCommentary (js ''AAPL'') (Num 3) (js ''TSLA'') (Num 1)] \<and>
   has_table (DividendComparisonSection (js ''AAPL'') (js ''TSLA'')
      (JsonArray [\<lparr>symbol = js ''AAPL'', dividendYieldTTM = Num 3\<rparr>])
      (JsonArray [\<lparr>symbol = js ''TSLA'', dividendYieldTTM = Num 1\<rparr>]))"
proof -
  have h1: "fetchDividendData (JsonArray [\<lparr>symbol = js ''AAPL'', dividendYieldTTM = Num 3\<rparr>]) =
     Some \<lparr>symbol = js ''AAPL'', dividendYieldTTM = Num 3\<rparr>"
    and h2: "fetchDividendData (JsonArray [\<lparr>symbol = js ''TSLA'', dividendYieldTTM = Num 1\<rparr>]) =
     Some \<lparr>symbol = js ''TSLA'', dividendYieldTTM = Num 1\<rparr>"
    by simp_all
  from dividend_section_layout [OF h1 h2, of "js ''AAPL''" "js ''TSLA''"] h1 h2 show ?thesis
    by (simp only: DividendData.simps)
qed

end
