(* ===== verification/Calculator.thy ===== *)
theory Calculator
  imports ParseFloat
begin

text \<open>The future value interest factor of annuity calculator,
  \<open>src/app/en/calculators/[slug]/future-value-interest-factor-of-annuity-calculator/components/Calculator.tsx\<close>.
  The component's state is its two input strings (\<open>useState\<close>), changed by the
  \<open>onChange\<close> handlers of the four inputs. Each render reads both strings
  with \<open>parseFloat\<close>, validates them with \<open>trim\<close>, \<open>Number.isNaN\<close> and a sign
  test, computes the factor with \<open>Math.pow\<close> and \<open>toFixed(4)\<close> when both are
  valid, and shows an output card, an error card, or (never, as shown below)
  both or neither. The cards keep the two parsed Numbers as values: React's
  printing of a bare Number is not modelled.\<close>

section \<open>State and events\<close>

record calculator_state =
  interestRateInput :: jstr
  numberOfPeriodsInput :: jstr

definition calculator_init :: calculator_state where
  "calculator_init = \<lparr>interestRateInput = js ''6.4'', numberOfPeriodsInput = js ''10''\<rparr>"

text \<open>The number input and the range input of a quantity share one handler;
  the event carries \<open>e.target.value\<close>.\<close>

datatype calculator_event =
    SetInterestRateInput jstr
  | SetNumberOfPeriodsInput jstr

fun calculator_step :: "calculator_state \<Rightarrow> calculator_event \<Rightarrow> calculator_state" where
  "calculator_step st (SetInterestRateInput v) = st\<lparr>interestRateInput := v\<rparr>"
| "calculator_step st (SetNumberOfPeriodsInput v) = st\<lparr>numberOfPeriodsInput := v\<rparr>"

inductive calculator_reachable :: "calculator_state \<Rightarrow> bool" where
  init: "calculator_reachable calculator_init"
| step: "calculator_reachable st \<Longrightarrow> calculator_reachable (calculator_step st ev)"

section \<open>Validation\<close>

definition interestRateError :: "jstr \<Rightarrow> jsnum \<Rightarrow> jstr" where
  "interestRateError rateInput ratePercent =
     (if js_trim rateInput = [] then js ''Please enter an interest rate.''
      else if js_is_nan ratePercent then js ''Please enter a valid numeric interest rate.''
      else if js_less ratePercent (Num 0) then js ''Interest rate must not be less than 0.''
      else [])"

definition numberOfPeriodsError :: "jstr \<Rightarrow> jsnum \<Rightarrow> jstr" where
  "numberOfPeriodsError periodsInput periods =
     (if js_trim periodsInput = [] then js ''Please enter the number of periods.''
      else if js_is_nan periods then js ''Please enter a valid numeric number of periods.''
      else if js_less periods (Num 0) then js ''Number of periods must not be less than 0.''
      else [])"

section \<open>The factor\<close>

definition compute_fvifa :: "jsnum \<Rightarrow> jsnum \<Rightarrow> jstr" where
  "compute_fvifa ratePercent periods =
     (let rateDecimal = js_div ratePercent (Num 100)
      in if js_strict_eq rateDecimal (Num 0) then to_fixed 4 periods
         else to_fixed 4 (js_div (js_sub (js_pow (js_add (Num 1) rateDecimal) periods)
                                         (Num 1))
                                 rateDecimal))"

section \<open>One render\<close>

record calculator_render =
  interestRatePercentValue :: jsnum
  numberOfPeriodsValue :: jsnum
  errorMessages :: "jstr list"
  fvifa :: jstr

text \<open>\<open>[a, b].filter(Boolean)\<close> keeps the non-empty strings.\<close>

definition Calculator :: "calculator_state \<Rightarrow> calculator_render" where
  "Calculator st =
     (let r = parse_float (interestRateInput st);
          n = parse_float (numberOfPeriodsInput st);
          errs = filter (\<lambda>m. m \<noteq> [])
                   [interestRateError (interestRateInput st) r,
                    numberOfPeriodsError (numberOfPeriodsInput st) n]
      in \<lparr>interestRatePercentValue = r, numberOfPeriodsValue = n, errorMessages = errs,
          fvifa = (if length errs = 0 then compute_fvifa r n else [])\<rparr>)"

datatype calculator_card =
    OutputCard jstr jsnum jsnum
  | ErrorMessageCard "jstr list"

text \<open>\<open>{fvifa && ...}\<close> renders the output card when the string is non-empty,
  \<open>{errorMessages.length > 0 && ...}\<close> the error card.\<close>

definition calculator_cards :: "calculator_render \<Rightarrow> calculator_card list" where
  "calculator_cards v =
     (if fvifa v \<noteq> [] then [OutputCard (fvifa v) (interestRatePercentValue v) (numberOfPeriodsValue v)] else []) @
     (if 0 < length (errorMessages v) then [ErrorMessageCard (errorMessages v)] else [])"

section \<open>Lemmas\<close>

lemma calculator_reachable_all: "calculator_reachable st"
proof -
  have "calculator_reachable (calculator_step calculator_init (SetInterestRateInput (interestRateInput st)))"
    by (rule calculator_reachable.step [OF calculator_reachable.init])
  then have "calculator_reachable (calculator_step
               (calculator_step calculator_init (SetInterestRateInput (interestRateInput st)))
               (SetNumberOfPeriodsInput (numberOfPeriodsInput st)))"
    by (rule calculator_reachable.step)
  then show ?thesis by (cases st) (simp add: calculator_init_def)
qed

text \<open>The annuity factor: for a non-zero rate \<open>d\<close>, \<open>((1 + d)^n - 1) / d\<close> is the
  sum of the growth factors of the \<open>n\<close> payments.\<close>

lemma fvifa_sum:
  assumes "d \<noteq> 0"
  shows "((1 + d) ^ n - 1) / d = (\<Sum>k<n. (1 + d :: real) ^ k)"
  using assms by (simp add: sum_gp_strict field_simps)

lemma compute_fvifa_Num:
  assumes "0 \<le> r"
  shows "compute_fvifa (Num r) (Num (real n)) = to_fixed 4 (Num (\<Sum>k<n. (1 + r / 100) ^ k))"
proof (cases "r = 0")
  case True
  then show ?thesis by (simp add: compute_fvifa_def)
next
  case False
  with assms have pos: "0 < 1 + r / 100" "r / 100 \<noteq> 0" by simp_all
  have pow: "js_pow (Num (1 + r / 100)) (Num (real n)) = Num ((1 + r / 100) ^ n)"
    using pos by (simp add: powr_realpow)
  have "js_div (Num r) (Num 100) = Num (r / 100)" "\<not> js_strict_eq (Num (r / 100)) (Num 0)"
    "js_add (Num 1) (Num (r / 100)) = Num (1 + r / 100)"
    using pos by simp_all
  then show ?thesis
    using pos by (simp only: simp_thms compute_fvifa_def Let_def if_False pow js_sub_Num
                             js_div_Num_nonzero fvifa_sum)
qed

lemma Calculator_values [simp]:
  "interestRatePercentValue (Calculator st) = parse_float (interestRateInput st)"
  "numberOfPeriodsValue (Calculator st) = parse_float (numberOfPeriodsInput st)"
  by (simp_all add: Calculator_def Let_def)

lemma compute_fvifa_ne: "compute_fvifa r n \<noteq> []"
  by (simp add: compute_fvifa_def Let_def)

text \<open>Both inputs read as finite Numbers, the rate non-negative: no error, and the
  output is the factor.\<close>

lemma Calculator_valid:
  assumes "parse_float (interestRateInput st) = Num r" "0 \<le> r"
    and "parse_float (numberOfPeriodsInput st) = Num (real n)"
  shows "errorMessages (Calculator st) = [] \<and>
         fvifa (Calculator st) = to_fixed 4 (Num (\<Sum>k<n. (1 + r / 100) ^ k))"
proof -
  have "js_trim (interestRateInput st) \<noteq> []" "js_trim (numberOfPeriodsInput st) \<noteq> []"
    using assms parse_float_blank by fastforce+
  with assms show ?thesis
    by (simp add: Calculator_def interestRateError_def numberOfPeriodsError_def
                  compute_fvifa_Num del: to_fixed.simps)
qed

lemma initial_sum:
  "(\<Sum>k<10. (1 + 32 / 5 / 100 :: real) ^ k) = 100068986649044643978 / 7450580596923828125"
proof -
  have "(1 + 32 / 5 / 100 :: real) = 133 / 125" by simp
  then show ?thesis unfolding sum_gp_strict by (simp add: power_divide)
qed

lemma initial_round: "round_scaled 4 (100068986649044643978 / 7450580596923828125) = 134310"
  by (simp add: round_scaled_def floor_eq_iff)

lemma initial_parse:
  "parse_float (interestRateInput calculator_init) = Num (32 / 5)"
  "parse_float (numberOfPeriodsInput calculator_init) = Num (real 10)"
  by (simp_all add: calculator_init_def parse_eval)

section \<open>Properties of the calculator\<close>

text \<open>C22. Every state of the calculator (every pair of input strings, all of
  which the \<open>onChange\<close> handlers reach) renders exactly one card: the output
  card or the error card, never both and never neither. The factor string is
  never empty, since \<open>toFixed\<close> always prints something, even for NaN.\<close>

theorem calculator_exactly_one_card:
  "length (calculator_cards (Calculator st)) = 1"
  by (simp add: calculator_cards_def Calculator_def Let_def compute_fvifa_ne)

text \<open>C23. When both inputs read as finite Numbers, the rate is not negative
  and the number of periods is a natural number n, the output card shows
  \<open>toFixed(4)\<close> of the annuity factor \<open>\<Sum>k<n. (1 + r/100)^k\<close>. The zero-rate
  branch (which prints n) and the general formula \<open>((1+d)^n - 1)/d\<close> agree
  with this one sum, so the special case is the limit of the formula.\<close>

theorem calculator_fvifa_geometric:
  assumes "parse_float (interestRateInput st) = Num r" "0 \<le> r"
    and "parse_float (numberOfPeriodsInput st) = Num (real n)"
  shows "calculator_cards (Calculator st) =
           [OutputCard (to_fixed 4 (Num (\<Sum>k<n. (1 + r / 100) ^ k))) (Num r) (Num (real n))]"
  using Calculator_valid [OF assms] assms
  by (simp add: calculator_cards_def del: to_fixed.simps)

theorem calculator_fvifa_geometric_witness:
  "parse_float (interestRateInput calculator_init) = Num (32 / 5) \<and> 0 \<le> (32 / 5 :: real) \<and>
   parse_float (numberOfPeriodsInput calculator_init) = Num (real 10) \<and>
   calculator_cards (Calculator calculator_init) =
     [OutputCard (to_fixed 4 (Num (\<Sum>k<10. (1 + 32 / 5 / 100) ^ k))) (Num (32 / 5)) (Num (real 10))]"
proof -
  have r: "0 \<le> (32 / 5 :: real)" by simp
  from calculator_fvifa_geometric [OF initial_parse(1) r initial_parse(2)] initial_parse r
  show ?thesis by blast
qed

text \<open>The first render, with the initial inputs "6.4" and "10", shows the factor
  13.4310.\<close>

lemma calculator_init_cards:
  "calculator_cards (Calculator calculator_init) = [OutputCard (js ''13.4310'') (Num (32 / 5)) (Num 10)]"
proof -
  have t: "to_fixed 4 (Num (\<Sum>k<10. (1 + 32 / 5 / 100) ^ k)) = js ''13.4310''"
    unfolding initial_sum
    by (simp add: to_fixed_small fixed_magnitude_def initial_round split_fraction_def
                  show_nat.simps digit_char_def)
  have r: "0 \<le> (32 / 5 :: real)" by simp
  have "errorMessages (Calculator calculator_init) = [] \<and>
        fvifa (Calculator calculator_init) = js ''13.4310''"
    using Calculator_valid [OF initial_parse(1) r initial_parse(2)] unfolding t .
  then show ?thesis
    using initial_parse by (simp add: calculator_cards_def)
qed

text \<open>C24. Blank inputs (empty or white space only) are reported as missing, not
  as non-numeric, although \<open>parseFloat\<close> reads them as NaN: the blank test comes
  first. With both inputs blank the error card lists the two messages in the
  order rate, periods, and no factor is shown.\<close>

theorem calculator_blank_inputs:
  assumes "js_trim (interestRateInput st) = []" "js_trim (numberOfPeriodsInput st) = []"
  shows "calculator_cards (Calculator st) =
           [ErrorMessageCard [js ''Please enter an interest rate.'', js ''Please enter the number of periods.'']]"
  using assms by (simp add: calculator_cards_def Calculator_def interestRateError_def numberOfPeriodsError_def)

theorem calculator_blank_inputs_witness:
  "js_trim (interestRateInput \<lparr>interestRateInput = js ''  '', numberOfPeriodsInput = []\<rparr>) = [] \<and>
   js_trim (numberOfPeriodsInput \<lparr>interestRateInput = js ''  '', numberOfPeriodsInput = []\<rparr>) = [] \<and>
   calculator_cards (Calculator \<lparr>interestRateInput = js ''  '', numberOfPeriodsInput = []\<rparr>) =
     [ErrorMessageCard [js ''Please enter an interest rate.'', js ''Please enter the number of periods.'']]"
proof -
  have h: "js_trim (interestRateInput \<lparr>interestRateInput = js ''  '', numberOfPeriodsInput = []\<rparr>) = []"
          "js_trim (numberOfPeriodsInput \<lparr>interestRateInput = js ''  '', numberOfPeriodsInput = []\<rparr>) = []"
    by (simp_all add: js_trim_def is_js_whitespace_def)
  from calculator_blank_inputs [OF h] h show ?thesis by blast
qed

text \<open>C25. The validation accepts any input that starts with a number:
  \<open>parseFloat\<close> reads the longest numeric prefix. For inputs made of a
  plain decimal literal (digits, optionally a point and more digits) followed
  by any unit that cannot continue the literal (not a digit, point, \<open>e\<close> or
  \<open>E\<close>) and any text after it, the calculator renders exactly what it renders
  for the literals alone: "6.4%" and "10 years" pass the "valid numeric"
  checks as "6.4" and "10".\<close>

theorem calculator_accepts_trailing_text:
  assumes "ds1 \<noteq> []" "list_all is_digit_unit ds1"
    and "fr1 = [] \<or> (\<exists>fs. fr1 = 0x2E # fs \<and> list_all is_digit_unit fs)"
    and "\<not> is_digit_unit c1" "c1 \<noteq> 0x2E" "c1 \<noteq> 0x65" "c1 \<noteq> 0x45"
    and "ds2 \<noteq> []" "list_all is_digit_unit ds2"
    and "fr2 = [] \<or> (\<exists>fs. fr2 = 0x2E # fs \<and> list_all is_digit_unit fs)"
    and "\<not> is_digit_unit c2" "c2 \<noteq> 0x2E" "c2 \<noteq> 0x65" "c2 \<noteq> 0x45"
  shows "calculator_cards (Calculator \<lparr>interestRateInput = ds1 @ fr1 @ c1 # rest1,
                                       numberOfPeriodsInput = ds2 @ fr2 @ c2 # rest2\<rparr>) =
         calculator_cards (Calculator \<lparr>interestRateInput = ds1 @ fr1, numberOfPeriodsInput = ds2 @ fr2\<rparr>)"
proof -
  have p: "parse_float (ds1 @ fr1 @ c1 # rest1) = parse_float (ds1 @ fr1)"
          "parse_float (ds2 @ fr2 @ c2 # rest2) = parse_float (ds2 @ fr2)"
    using parse_float_literal_suffix [OF assms(1-7)] parse_float_literal_suffix [OF assms(8-14)] .
  have t: "js_trim (ds1 @ fr1 @ c1 # rest1) \<noteq> []" "js_trim (ds1 @ fr1) \<noteq> []"
          "js_trim (ds2 @ fr2 @ c2 # rest2) \<noteq> []" "js_trim (ds2 @ fr2) \<noteq> []"
    using plain_literal_ne assms(1,2,8,9) by (metis append.assoc)+
  show ?thesis
    using p t by (simp add: Calculator_def interestRateError_def numberOfPeriodsError_def Let_def)
qed

theorem calculator_accepts_trailing_text_witness:
  "calculator_cards (Calculator \<lparr>interestRateInput = js ''6.4%'', numberOfPeriodsInput = js ''10 years''\<rparr>) =
   calculator_cards (Calculator calculator_init)"
proof -
  have h: "js ''6'' \<noteq> []" "list_all is_digit_unit (js ''6'')"
    "js ''.4'' = [] \<or> (\<exists>fs. js ''.4'' = 0x2E # fs \<and> list_all is_digit_unit fs)"
    "\<not> is_digit_unit 0x25" "(0x25::code_unit) \<noteq> 0x2E" "(0x25::code_unit) \<noteq> 0x65" "(0x25::code_unit) \<noteq> 0x45"
    "js ''10'' \<noteq> []" "list_all is_digit_unit (js ''10'')" "([]::jstr) = [] \<or> (\<exists>fs. ([]::jstr) = 0x2E # fs \<and> list_all is_digit_unit fs)"
    "\<not> is_digit_unit 0x20" "(0x20::code_unit) \<noteq> 0x2E" "(0x20::code_unit) \<noteq> 0x65" "(0x20::code_unit) \<noteq> 0x45"
    by (simp_all add: is_digit_unit_def)
  have "js ''6.4%'' = js ''6'' @ js ''.4'' @ 0x25 # []" "js ''10 years'' = js ''10'' @ [] @ 0x20 # js ''years''"
       "calculator_init = \<lparr>interestRateInput = js ''6'' @ js ''.4'', numberOfPeriodsInput = js ''10'' @ []\<rparr>"
    by (simp_all add: calculator_init_def)
  with calculator_accepts_trailing_text [OF h, of "[]" "js ''years''"] show ?thesis by simp
qed

text \<open>C26. Inputs that \<open>parseFloat\<close> reads as Infinity (such as "Infinity" or
  "1e400") pass validation, being neither NaN nor negative, and the output card
  shows a non-finite factor: an infinite number of periods at any non-negative
  finite rate gives "Infinity", and an infinite rate over any positive finite
  number of periods gives "NaN" (\<open>(Infinity - 1) / Infinity\<close>).\<close>

theorem calculator_non_finite_output:
  "(parse_float (interestRateInput st) = Num r \<and> 0 \<le> r \<and>
    parse_float (numberOfPeriodsInput st) = PosInf \<longrightarrow>
      calculator_cards (Calculator st) = [OutputCard (js ''Infinity'') (Num r) PosInf]) \<and>
   (parse_float (interestRateInput st) = PosInf \<and>
    parse_float (numberOfPeriodsInput st) = Num n \<and> 0 < n \<longrightarrow>
      calculator_cards (Calculator st) = [OutputCard (js ''NaN'') PosInf (Num n)])"
proof (intro conjI impI; elim conjE)
  assume a: "parse_float (interestRateInput st) = Num r" "0 \<le> r"
    "parse_float (numberOfPeriodsInput st) = PosInf"
  have t: "js_trim (interestRateInput st) \<noteq> []" "js_trim (numberOfPeriodsInput st) \<noteq> []"
    using a parse_float_blank by fastforce+
  have f: "compute_fvifa (Num r) PosInf = js ''Infinity''"
    using a(2) by (cases "r = 0") (simp_all add: compute_fvifa_def js_sub_def js_strict_eq_def)
  show "calculator_cards (Calculator st) = [OutputCard (js ''Infinity'') (Num r) PosInf]"
    using a t f by (simp add: calculator_cards_def Calculator_def interestRateError_def
                              numberOfPeriodsError_def Let_def del: to_fixed.simps)
next
  assume a: "parse_float (interestRateInput st) = PosInf"
    "parse_float (numberOfPeriodsInput st) = Num n" "0 < n"
  have t: "js_trim (interestRateInput st) \<noteq> []" "js_trim (numberOfPeriodsInput st) \<noteq> []"
    using a parse_float_blank by fastforce+
  have f: "compute_fvifa PosInf (Num n) = js ''NaN''"
    using a(3) by (simp add: compute_fvifa_def js_sub_def js_strict_eq_def)
  show "calculator_cards (Calculator st) = [OutputCard (js ''NaN'') PosInf (Num n)]"
    using a t f by (simp add: calculator_cards_def Calculator_def interestRateError_def
                              numberOfPeriodsError_def Let_def del: to_fixed.simps)
qed

theorem calculator_non_finite_output_witness:
  "calculator_cards (Calculator \<lparr>interestRateInput = js ''6.4'', numberOfPeriodsInput = js ''1e400''\<rparr>) =
     [OutputCard (js ''Infinity'') (Num (32 / 5)) PosInf] \<and>
   calculator_cards (Calculator \<lparr>interestRateInput = js ''Infinity'', numberOfPeriodsInput = js ''10''\<rparr>) =
     [OutputCard (js ''NaN'') PosInf (Num 10)]"
proof -
  have r: "parse_float (js ''6.4'') = Num (32 / 5)" "parse_float (js ''10'') = Num 10"
    "parse_float (js ''Infinity'') = PosInf" "parse_float (js ''1e400'') = PosInf"
    by (simp_all add: parse_eval)
  show ?thesis
    using calculator_non_finite_output [of "\<lparr>interestRateInput = js ''6.4'', numberOfPeriodsInput = js ''1e400''\<rparr>" "32 / 5"]
          calculator_non_finite_output [of "\<lparr>interestRateInput = js ''Infinity'', numberOfPeriodsInput = js ''10''\<rparr>" _ 10]
          r by simp
qed

text \<open>C27. The factor shown is the annuity factor to the precision printed:
  \<open>parseFloat\<close> of the output reads back a Number within \<open>0.00005\<close> of
  \<open>\<Sum>k<n. (1 + r/100)^k\<close>, whenever that factor is below \<open>10^21\<close> (where
  \<open>toFixed\<close> switches to exponent notation).\<close>

theorem calculator_output_roundtrip:
  assumes "parse_float (interestRateInput st) = Num r" "0 \<le> r"
    and "parse_float (numberOfPeriodsInput st) = Num (real n)"
    and "(\<Sum>k<n. (1 + r / 100) ^ k) < 10 ^ 21"
  shows "\<exists>v. parse_float (fvifa (Calculator st)) = Num v \<and>
             \<bar>v - (\<Sum>k<n. (1 + r / 100) ^ k)\<bar> \<le> 1 / 20000"
proof -
  have "0 \<le> (\<Sum>k<n. (1 + r / 100) ^ k)" using assms(2) by (intro sum_nonneg) simp
  then show ?thesis
    using Calculator_valid [OF assms(1-3)] to_fixed_parse_roundtrip [of "\<Sum>k<n. (1 + r / 100) ^ k" 4]
          assms(4)
    by (simp del: to_fixed.simps)
qed

theorem calculator_output_roundtrip_witness:
  "parse_float (interestRateInput calculator_init) = Num (32 / 5) \<and> 0 \<le> (32 / 5 :: real) \<and>
   parse_float (numberOfPeriodsInput calculator_init) = Num (real 10) \<and>
   (\<Sum>k<10. (1 + 32 / 5 / 100 :: real) ^ k) < 10 ^ 21 \<and>
   (\<exists>v. parse_float (fvifa (Calculator calculator_init)) = Num v \<and>
        \<bar>v - (\<Sum>k<10. (1 + 32 / 5 / 100) ^ k)\<bar> \<le> 1 / 20000)"
proof -
  have r: "0 \<le> (32 / 5 :: real)" by simp
  have b: "(\<Sum>k<10. (1 + 32 / 5 / 100 :: real) ^ k) < 10 ^ 21"
    unfolding initial_sum by simp
  from calculator_output_roundtrip [OF initial_parse(1) r initial_parse(2) b] initial_parse r b
  show ?thesis by blast
qed

end
