(* ===== verification/TableIndex.thy ===== *)
theory TableIndex
  imports ParseFloat "HOL-Library.AList" "HOL-Library.Multiset" "HOL-Library.List_Lexorder"
begin

text \<open>The table index page, \<open>src/app/en/tables/page.tsx\<close>. It groups the pages
  of a section (from \<open>getSectionPages\<close>, outside \<open>src\<close>, here an input list)
  by the upper-cased first code unit of their title, orders the groups by their
  letter and each group by title, and renders one heading and one list per
  group. The accumulator of \<open>reduce\<close> is a JavaScript object, whose keys keep
  their insertion order (integer-like keys first, in numeric order): it is an
  association list. \<open>String.prototype.toUpperCase\<close> and
  \<open>localeCompare(\<dots>, "en")\<close> are runtime library functions and are
  parameters: \<open>upper\<close> is any case mapping, and the collation is any key into
  a linear order (\<open>a.localeCompare(b) < 0\<close> iff \<open>key a < key b\<close>).
  \<open>Array.prototype.sort\<close> is stable, as \<open>sort_key\<close> is.\<close>

record PageData =
  title :: jstr
  path :: jstr

text \<open>\<open>s.charAt(0)\<close>: the first code unit as a string, empty for an empty string.\<close>

definition charAt0 :: "jstr \<Rightarrow> jstr" where
  "charAt0 s = take 1 s"

definition page_letter :: "(jstr \<Rightarrow> jstr) \<Rightarrow> PageData \<Rightarrow> jstr" where
  "page_letter upper page = upper (charAt0 (title page))"

text \<open>One step of the \<open>reduce\<close>: create the group if it is missing, then push.\<close>

definition group_step ::
  "(jstr \<Rightarrow> jstr) \<Rightarrow> (jstr \<times> PageData list) list \<Rightarrow> PageData \<Rightarrow> (jstr \<times> PageData list) list" where
  "group_step upper acc page =
     (let letter = page_letter upper page;
          acc' = (if map_of acc letter = None then AList.update letter [] acc else acc)
      in AList.update letter (the (map_of acc' letter) @ [page]) acc')"

definition groups :: "(jstr \<Rightarrow> jstr) \<Rightarrow> PageData list \<Rightarrow> (jstr \<times> PageData list) list" where
  "groups upper pages = foldl (group_step upper) [] pages"

text \<open>\<open>Object.keys\<close>: array-index keys (canonical decimal integers below
  \<open>2^32 - 1\<close>) first in increasing order, then the other keys in insertion
  order.\<close>

definition is_array_index :: "jstr \<Rightarrow> bool" where
  "is_array_index s =
     (s \<noteq> [] \<and> list_all is_digit_unit s \<and> (s = [0x30] \<or> hd s \<noteq> 0x30) \<and> read_nat s < 2 ^ 32 - 1)"

definition object_keys :: "(jstr \<times> 'v) list \<Rightarrow> jstr list" where
  "object_keys obj =
     sort_key read_nat (filter is_array_index (map fst obj)) @ filter (\<lambda>k. \<not> is_array_index k) (map fst obj)"

definition table_index ::
  "(jstr \<Rightarrow> jstr) \<Rightarrow> (jstr \<Rightarrow> 'k::linorder) \<Rightarrow> PageData list \<Rightarrow> (jstr \<times> PageData list) list" where
  "table_index upper key pages =
     (let grps = groups upper pages;
          sortedLetters = sort_key key (object_keys grps)
      in map (\<lambda>letter. (letter, sort_key (\<lambda>p. key (title p)) (the (map_of grps letter)))) sortedLetters)"

text \<open>The rendered page: the heading, then per letter a section with the letter as
  its heading and a list of links (\<open>href\<close>, text).\<close>

record IndexSection =
  letter_heading :: jstr
  links :: "(jstr \<times> jstr) list"

definition TableIndexPage ::
  "(jstr \<Rightarrow> jstr) \<Rightarrow> (jstr \<Rightarrow> 'k::linorder) \<Rightarrow> PageData list \<Rightarrow> jstr \<times> IndexSection list" where
  "TableIndexPage upper key pages =
     (js ''Table Index'',
      map (\<lambda>(letter, ps). \<lparr>letter_heading = letter, links = map (\<lambda>page. (path page, title page)) ps\<rparr>)
        (table_index upper key pages))"

text \<open>The abstract index the page promises: the distinct initials in collation
  order, each with its pages in collation order of the titles.\<close>

definition table_index_spec ::
  "(jstr \<Rightarrow> jstr) \<Rightarrow> (jstr \<Rightarrow> 'k::linorder) \<Rightarrow> PageData list \<Rightarrow> (jstr \<times> PageData list) list" where
  "table_index_spec upper key pages =
     map (\<lambda>l. (l, sort_key (\<lambda>p. key (title p)) (filter (\<lambda>p. page_letter upper p = l) pages)))
       (sort_key key (remdups (map (page_letter upper) pages)))"

text \<open>An ASCII case mapping, used for the concrete instances.\<close>

definition ascii_upper :: "jstr \<Rightarrow> jstr" where
  "ascii_upper s = map (\<lambda>c. if 0x61 \<le> c \<and> c \<le> 0x7A then c - 0x20 else c) s"

abbreviation sample_pages :: "PageData list" where
  "sample_pages \<equiv>
     [\<lparr>title = js ''beta'', path = js ''/b''\<rparr>, \<lparr>title = [], path = js ''/u''\<rparr>,
      \<lparr>title = js ''Alpha'', path = js ''/a''\<rparr>, \<lparr>title = js ''bar'', path = js ''/c''\<rparr>]"

section \<open>Lemmas\<close>

lemma map_fst_update:
  "map fst (AList.update k v al) = (if k \<in> set (map fst al) then map fst al else map fst al @ [k])"
  by (induction al) auto

lemma group_step_keys:
  "map fst (group_step upper acc page) =
     (if page_letter upper page \<in> set (map fst acc) then map fst acc else map fst acc @ [page_letter upper page])"
  by (auto simp: group_step_def Let_def map_fst_update dom_update weak_map_of_SomeI
           dest: map_of_SomeD split: option.splits)

lemma group_step_map_of:
  "map_of (group_step upper acc page) =
     (map_of acc)(page_letter upper page \<mapsto>
        (case map_of acc (page_letter upper page) of None \<Rightarrow> [] | Some ps \<Rightarrow> ps) @ [page])"
  by (auto simp: group_step_def Let_def update_conv' split: option.splits)

lemma groups_Nil [simp]: "groups upper [] = []"
  by (simp add: groups_def)

lemma groups_snoc: "groups upper (pages @ [page]) = group_step upper (groups upper pages) page"
  by (simp add: groups_def)

lemma groups_keys:
  "distinct (map fst (groups upper pages)) \<and> set (map fst (groups upper pages)) = page_letter upper ` set pages"
  by (induction pages rule: rev_induct) (auto simp: groups_snoc group_step_keys)

lemma groups_map_of:
  "map_of (groups upper pages) l =
     (if l \<in> page_letter upper ` set pages then Some (filter (\<lambda>p. page_letter upper p = l) pages) else None)"
proof (induction pages rule: rev_induct)
  case Nil
  then show ?case by (simp add: groups_def)
next
  case (snoc page pages)
  then show ?case
    by (auto simp: groups_snoc group_step_map_of empty_filter_conv image_iff split: option.splits if_splits)
qed


lemma mset_object_keys: "mset (object_keys obj) = mset (map fst obj)"
  by (simp add: object_keys_def mset_filter multiset_partition [symmetric])

lemma set_object_keys [simp]: "set (object_keys obj) = set (map fst obj)"
  by (metis mset_object_keys set_mset_mset)

lemma distinct_object_keys: "distinct (map fst obj) \<Longrightarrow> distinct (object_keys obj)"
  by (metis mset_eq_imp_distinct_iff mset_object_keys)

lemma table_index_eq:
  "table_index upper key pages =
     map (\<lambda>l. (l, sort_key (\<lambda>p. key (title p)) (filter (\<lambda>p. page_letter upper p = l) pages)))
       (sort_key key (object_keys (groups upper pages)))"
proof -
  have "\<And>l. l \<in> set (sort_key key (object_keys (groups upper pages))) \<Longrightarrow>
          the (map_of (groups upper pages) l) = filter (\<lambda>p. page_letter upper p = l) pages"
    using groups_keys [of upper pages] by (simp add: groups_map_of)
  then show ?thesis
    by (simp add: table_index_def Let_def)
qed

lemma index_letters_props:
  "distinct (sort_key key (object_keys (groups upper pages))) \<and>
   set (sort_key key (object_keys (groups upper pages))) = page_letter upper ` set pages"
  using groups_keys [of upper pages] by (simp add: distinct_object_keys)

lemma sum_filter_partition:
  "finite L \<Longrightarrow> f ` set xs \<subseteq> L \<Longrightarrow> (\<Sum>l\<in>L. mset (filter (\<lambda>x. f x = l) xs)) = mset xs"
proof (induction xs)
  case Nil
  then show ?case by simp
next
  case (Cons x xs)
  have "(\<Sum>l\<in>L. mset (filter (\<lambda>y. f y = l) (x # xs))) =
        (\<Sum>l\<in>L. (if f x = l then {#x#} else {#})) + (\<Sum>l\<in>L. mset (filter (\<lambda>y. f y = l) xs))"
    by (subst sum.distrib [symmetric], rule sum.cong) auto
  also have "\<dots> = {#x#} + mset xs"
    using Cons by (simp add: sum.delta)
  finally show ?case by simp
qed

lemma mset_concat: "mset (concat xss) = sum_list (map mset xss)"
  by (induction xss) simp_all

lemma sort_key_Nil_iff [simp]: "sort_key f xs = [] \<longleftrightarrow> xs = []"
  by (metis length_0_conv length_sort)

lemma sort_key_inj_unique:
  assumes "inj_on key (set xs)" "distinct xs" "distinct ys" "set xs = set ys"
  shows "sort_key key xs = sort_key key ys"
proof -
  have "map key (sort_key key xs) = map key (sort_key key ys)"
    using assms
    by (intro sorted_distinct_set_unique) (simp_all add: distinct_map)
  moreover have "inj_on key (set (sort_key key xs) \<union> set (sort_key key ys))"
    using assms(1,4) by simp
  ultimately show ?thesis
    using inj_on_map_eq_map by blast
qed

lemma filter_eq_distinct:
  "distinct xs \<Longrightarrow> filter (\<lambda>x. x = a) xs = (if a \<in> set xs then [a] else [])"
proof (induction xs)
  case (Cons y ys)
  then show ?case by (auto simp: filter_empty_conv)
qed simp

section \<open>Properties of the table index\<close>

text \<open>C28. Every page of the section appears in exactly one group, as often as in
  the input: the concatenated groups are a permutation of the pages.\<close>

theorem table_index_permutation:
  "mset (concat (map snd (table_index upper key pages))) = mset pages"
proof -
  let ?L = "sort_key key (object_keys (groups upper pages))"
  have "mset (concat (map snd (table_index upper key pages))) =
        (\<Sum>l\<leftarrow>?L. mset (filter (\<lambda>p. page_letter upper p = l) pages))"
    by (simp add: table_index_eq mset_concat comp_def)
  also have "\<dots> = (\<Sum>l\<in>page_letter upper ` set pages. mset (filter (\<lambda>p. page_letter upper p = l) pages))"
    using index_letters_props [of key upper pages] by (simp add: sum_list_distinct_conv_sum_set)
  also have "\<dots> = mset pages"
    by (rule sum_filter_partition) simp_all
  finally show ?thesis .
qed

text \<open>C29. The groups are exactly the distinct initials (upper-cased first code
  units) of the titles, each once; each group is non-empty and is the pages with
  that initial, in input order up to the stable sort by title.\<close>

theorem table_index_groups:
  "distinct (map fst (table_index upper key pages)) \<and>
   set (map fst (table_index upper key pages)) = page_letter upper ` set pages \<and>
   (\<forall>(l, ps) \<in> set (table_index upper key pages).
      ps \<noteq> [] \<and> ps = sort_key (\<lambda>p. key (title p)) (filter (\<lambda>p. page_letter upper p = l) pages))"
  using index_letters_props [of key upper pages]
  by (auto simp: table_index_eq comp_def distinct_map inj_on_def filter_empty_conv)

theorem table_index_groups_witness:
  "distinct (map fst (table_index ascii_upper id sample_pages)) \<and>
   set (map fst (table_index ascii_upper id sample_pages)) = page_letter ascii_upper ` set sample_pages \<and>
   list_all (\<lambda>(l, ps). ps \<noteq> [] \<and> ps = sort_key (\<lambda>p. id (title p)) (filter (\<lambda>p. page_letter ascii_upper p = l) sample_pages))
     (table_index ascii_upper id sample_pages)"
  unfolding list_all_iff by (rule table_index_groups)

text \<open>C30. The groups are ordered by the collation of their letters and the pages
  of each group by the collation of their titles.\<close>

theorem table_index_sorted:
  "sorted (map (\<lambda>(l, ps). key l) (table_index upper key pages)) \<and>
   (\<forall>(l, ps) \<in> set (table_index upper key pages). sorted (map (\<lambda>p. key (title p)) ps))"
  by (simp add: table_index_eq comp_def case_prod_beta)

theorem table_index_sorted_witness:
  "sorted (map (\<lambda>(l, ps). id l) (table_index ascii_upper id sample_pages)) \<and>
   list_all (\<lambda>(l, ps). sorted (map (\<lambda>p. id (title p)) ps)) (table_index ascii_upper id sample_pages)"
  unfolding list_all_iff by (rule table_index_sorted)

text \<open>C31. Refinement: when the collation tells the letters apart, the page is the
  abstract index (sort the distinct initials, list each initial's pages sorted by
  title), whatever order \<open>Object.keys\<close> produced the letters in.\<close>

theorem table_index_refines_spec:
  assumes "inj_on key (page_letter upper ` set pages)"
  shows "table_index upper key pages = table_index_spec upper key pages"
proof -
  have "sort_key key (object_keys (groups upper pages)) = sort_key key (remdups (map (page_letter upper) pages))"
    using assms groups_keys [of upper pages]
    by (intro sort_key_inj_unique) (simp_all add: distinct_object_keys)
  then show ?thesis
    by (simp add: table_index_eq table_index_spec_def)
qed

theorem table_index_refines_spec_witness:
  "inj_on id (page_letter ascii_upper ` set sample_pages) \<and>
   table_index ascii_upper id sample_pages = table_index_spec ascii_upper id sample_pages"
  using table_index_refines_spec [of id ascii_upper sample_pages] by simp

text \<open>C32. A page with an empty title has the empty letter: when the case
  mapping sends only the empty string to the empty string, the pages with an
  empty title form exactly one section, whose heading is empty (no visible
  letter) and whose links have empty text, in the input order (their titles
  tie in the collation, and the sort is stable). No other section has an empty
  heading, and there is none when no title is empty.\<close>

theorem table_index_empty_title_section:
  assumes "\<forall>s. upper s = [] \<longleftrightarrow> s = []"
  shows "filter (\<lambda>sec. letter_heading sec = []) (snd (TableIndexPage upper key pages)) =
           (if filter (\<lambda>p. title p = []) pages = [] then []
            else [\<lparr>letter_heading = [], links = map (\<lambda>p. (path p, [])) (filter (\<lambda>p. title p = []) pages)\<rparr>])"
proof -
  let ?L = "sort_key key (object_keys (groups upper pages))"
  have letter: "page_letter upper p = [] \<longleftrightarrow> title p = []" for p
    using assms by (simp add: page_letter_def charAt0_def)
  have letter': "[] = page_letter upper p \<longleftrightarrow> title p = []" for p by (metis letter)
  have sel: "filter (\<lambda>l. l = []) ?L = (if filter (\<lambda>p. title p = []) pages = [] then [] else [[]])"
    using index_letters_props [of key upper pages] letter letter'
    by (auto simp: filter_eq_distinct filter_empty_conv image_iff)
  have grp: "filter (\<lambda>p. page_letter upper p = []) pages = filter (\<lambda>p. title p = []) pages"
    using letter by simp
  have srt: "sort_key (\<lambda>p. key (title p)) (filter (\<lambda>p. title p = []) pages) = filter (\<lambda>p. title p = []) pages"
  proof (rule sort_key_id_if_sorted)
    have "map (\<lambda>p. key (title p)) (filter (\<lambda>p. title p = []) pages) =
          map (\<lambda>p. key []) (filter (\<lambda>p. title p = []) pages)"
      by (rule map_cong) simp_all
    then show "sorted (map (\<lambda>p. key (title p)) (filter (\<lambda>p. title p = []) pages))"
      by (simp add: map_replicate_const)
  qed
  have "filter (\<lambda>sec. letter_heading sec = []) (snd (TableIndexPage upper key pages)) =
        map (\<lambda>l. \<lparr>letter_heading = l, links = map (\<lambda>page. (path page, title page))
                   (sort_key (\<lambda>p. key (title p)) (filter (\<lambda>p. page_letter upper p = l) pages))\<rparr>)
          (filter (\<lambda>l. l = []) ?L)"
    by (simp add: TableIndexPage_def table_index_eq filter_map comp_def)
  also have "\<dots> = (if filter (\<lambda>p. title p = []) pages = [] then []
            else [\<lparr>letter_heading = [], links = map (\<lambda>p. (path p, [])) (filter (\<lambda>p. title p = []) pages)\<rparr>])"
    unfolding sel by (simp add: grp srt cong: map_cong)
  finally show ?thesis .
qed

theorem table_index_empty_title_section_witness:
  "filter (\<lambda>sec. letter_heading sec = []) (snd (TableIndexPage ascii_upper id sample_pages)) =
     [\<lparr>letter_heading = [], links = [(js ''/u'', [])]\<rparr>]"
proof -
  have "\<forall>s. ascii_upper s = [] \<longleftrightarrow> s = []" by (simp add: ascii_upper_def)
  from table_index_empty_title_section [OF this, of id sample_pages] show ?thesis by simp
qed

end
