(* ===== verification/PriceSeries.thy ===== *)
theory PriceSeries
  imports JsNumber "HOL-Library.List_Lexorder"
begin

text \<open>The price chart section of the Chinese home page,
  \<open>src/app/zh/components/StockComparisonSection.tsx\<close>. \<open>fetchPriceSeriesData\<close>
  turns the API's end-of-day records (newest first) into a series of
  (date, adjusted close) points, oldest first; the section fetches the two
  fixed symbols and renders nothing (\<open>null\<close>) unless both series exist. The
  chart (\<open>Chart\<close>) and the form are components outside \<open>src\<close>: the section's
  value records the data it passes to the chart.\<close>

record HistoricalPriceDataPoint =
  symbol :: jstr
  date :: jstr
  adjOpen :: jsnum
  adjHigh :: jsnum
  adjLow :: jsnum
  adjClose :: jsnum
  volume :: jsnum

text \<open>An element of \<open>PriceSeriesData\<close>, \<open>{ date: string; price: number }\<close>.\<close>

record PriceSeriesPoint =
  point_date :: jstr
  price :: jsnum

text \<open>A JSON object passes the \<open>!raw || raw.length === 0\<close> test (its \<open>length\<close>
  is \<open>undefined\<close>) and then \<open>raw.reverse()\<close> throws, which the \<open>catch\<close> turns
  into \<open>null\<close>: every response but a non-empty array gives \<open>None\<close>.\<close>

fun fetchPriceSeriesData :: "HistoricalPriceDataPoint json_response \<Rightarrow> PriceSeriesPoint list option" where
  "fetchPriceSeriesData FetchFailed = None"
| "fetchPriceSeriesData JsonNull = None"
| "fetchPriceSeriesData JsonObject = None"
| "fetchPriceSeriesData (JsonArray historicalPriceRawData) =
     (if length historicalPriceRawData = 0 then None
      else Some (map (\<lambda>item. \<lparr>point_date = date item, price = adjClose item\<rparr>) (rev historicalPriceRawData)))"

record ChartSeries =
  chart_symbol :: jstr
  priceSeries :: "PriceSeriesPoint list"

record StockComparisonView =
  heading :: jstr
  texts :: "jstr list"
  stockOne :: ChartSeries
  stockTwo :: ChartSeries

definition stock_comparison_heading :: jstr where
  "stock_comparison_heading =
     [0x5B9A, 0x5236, 0x56FE, 0x8868, 0xFF0C, 0x52A9, 0x529B, 0x9AD8, 0x6548, 0x6295, 0x8D44, 0x51B3, 0x7B56]"

definition stock_comparison_texts :: "jstr list" where
  "stock_comparison_texts =
     [[0x901A, 0x8FC7, 0x5B9A, 0x5236, 0x5316, 0x56FE, 0x8868, 0x5DE5, 0x5177, 0xFF0C, 0x60A8, 0x53EF,
       0x4EE5, 0x8FFD, 0x8E2A, 0x5E76, 0x5BF9, 0x6BD4, 0x91CD, 0x70B9, 0x5173, 0x6CE8, 0x7684, 0x80A1,
       0x7968, 0xFF08, 0x5982] @ js '' AAPL'' @ [0x3001] @ js ''NVDA'' @
      [0xFF09, 0x8868, 0x73B0, 0x3002, 0x8BBE, 0x7F6E, 0x521D, 0x59CB, 0x6295, 0x8D44, 0x91D1, 0x989D,
       0xFF08, 0x5982] @ js '' 1 '' @
      [0x4E07, 0x5143, 0xFF09, 0xFF0C, 0x6E05, 0x6670, 0x5448, 0x73B0, 0x4E0D, 0x540C, 0x6807, 0x7684,
       0x968F, 0x65F6, 0x95F4, 0x7684, 0x56DE, 0x62A5, 0x53D8, 0x5316, 0x3002, 0x56FE, 0x8868, 0x652F,
       0x6301, 0x4EA4, 0x4E92, 0x64CD, 0x4F5C, 0xFF0C, 0x4FBF, 0x4E8E, 0x6DF1, 0x5165, 0x5206, 0x6790,
       0x6570, 0x636E, 0xFF0C, 0x63D0, 0x5347, 0x51B3, 0x7B56, 0x6548, 0x7387, 0x3002],
      [0x8F93, 0x5165, 0x80A1, 0x7968, 0x4EE3, 0x7801, 0xFF0C, 0x5373, 0x53EF, 0x5FEB, 0x901F, 0x751F,
       0x6210, 0x5BF9, 0x6BD4, 0x56FE, 0x8868, 0x3002]]"

text \<open>The section for the responses of the two fixed symbols, AAPL and NVDA.\<close>

definition StockComparisonSection ::
  "HistoricalPriceDataPoint json_response \<Rightarrow> HistoricalPriceDataPoint json_response \<Rightarrow> StockComparisonView option" where
  "StockComparisonSection responseOne responseTwo =
     (let stockOneSymbol = js ''AAPL'';
          stockTwoSymbol = js ''NVDA''
      in case (fetchPriceSeriesData responseOne, fetchPriceSeriesData responseTwo) of
           (Some stockOnePriceSeriesData, Some stockTwoPriceSeriesData) \<Rightarrow>
             Some \<lparr>heading = stock_comparison_heading, texts = stock_comparison_texts,
                   stockOne = \<lparr>chart_symbol = stockOneSymbol, priceSeries = stockOnePriceSeriesData\<rparr>,
                   stockTwo = \<lparr>chart_symbol = stockTwoSymbol, priceSeries = stockTwoPriceSeriesData\<rparr>\<rparr>
         | _ \<Rightarrow> None)"

text \<open>Two end-of-day records as the API lists them, newest first.\<close>

abbreviation sample_history :: "HistoricalPriceDataPoint list" where
  "sample_history \<equiv>
     [\<lparr>symbol = js ''AAPL'', date = js ''2025-01-03'', adjOpen = Num 1, adjHigh = Num 1, adjLow = Num 1,
       adjClose = Num 2, volume = Num 1\<rparr>,
      \<lparr>symbol = js ''AAPL'', date = js ''2025-01-02'', adjOpen = Num 1, adjHigh = Num 1, adjLow = Num 1,
       adjClose = Num 1, volume = Num 1\<rparr>]"

section \<open>Lemmas\<close>

lemma fetchPriceSeriesData_Some_iff:
  "fetchPriceSeriesData r \<noteq> None \<longleftrightarrow> (\<exists>x xs. r = JsonArray (x # xs))"
  by (cases r) (auto simp: neq_Nil_conv)

section \<open>Properties of the price section\<close>

text \<open>C33. The API lists records newest first; when their dates (ISO strings,
  whose code-unit order is the chronological order) are in decreasing order,
  the series passed to the chart has one point per record, its dates in
  increasing order, and its prices the adjusted closes oldest first.\<close>

theorem price_series_chronological:
  assumes "historicalPriceRawData \<noteq> []"
    and "sorted_wrt (\<ge>) (map date historicalPriceRawData)"
  shows "\<exists>ps. fetchPriceSeriesData (JsonArray historicalPriceRawData) = Some ps \<and>
           length ps = length historicalPriceRawData \<and>
           sorted (map point_date ps) \<and>
           map price ps = rev (map adjClose historicalPriceRawData)"
  using assms by (simp add: rev_map [symmetric] comp_def sorted_wrt_rev)

theorem price_series_chronological_witness:
  "sample_history \<noteq> [] \<and> sorted_wrt (\<ge>) (map date sample_history) \<and>
   (\<exists>ps. fetchPriceSeriesData (JsonArray sample_history) = Some ps \<and>
      length ps = 2 \<and> sorted (map point_date ps) \<and> map price ps = [Num 1, Num 2])"
proof -
  have h: "sample_history \<noteq> []" "sorted_wrt (\<ge>) (map date sample_history)" by simp_all
  from price_series_chronological [OF h] h show ?thesis by simp
qed

text \<open>C34. The section renders (is not \<open>null\<close>) exactly when both responses are
  non-empty arrays: a failed fetch, \<open>null\<close>, an error object or an empty array
  for either symbol hides the whole section.\<close>

theorem stock_comparison_section_renders_iff:
  "StockComparisonSection responseOne responseTwo \<noteq> None \<longleftrightarrow>
     (\<exists>x xs. responseOne = JsonArray (x # xs)) \<and> (\<exists>y ys. responseTwo = JsonArray (y # ys))"
  by (simp add: StockComparisonSection_def fetchPriceSeriesData_Some_iff [symmetric]
           split: option.split)

end
