(* ===== verification/Pages.thy ===== *)
theory Pages
  imports CompanyOverview PriceSeries
begin

text \<open>The pages that compose the modelled sections:
  \<open>src/app/en/stock-comparisons/[slug]/page.tsx\<close> (the English comparison
  article) and \<open>src/app/zh/page.tsx\<close> (the Chinese home page), with the content
  of the English hero section and logo. Sections whose source is not under
  \<open>src\<close> are kept as opaque parts, by component name and string props; the
  header, sidebars, footer and modified date are layout and are not part of the
  values below.\<close>

datatype page_part =
    ExternalComponent jstr "jstr list"
  | OverviewSection rendered_section
  | PriceChartSection StockComparisonView

record StockComparisonPageView =
  headerPathname :: jstr
  articleH1 :: jstr
  articleIntro :: jstr
  articleSections :: "page_part list"

text \<open>The article for the route parameter \<open>slug\<close> and the two profile responses
  the overview section receives. JSX joins the lines of a text with single
  spaces; the apostrophes are U+2019.\<close>

definition StockComparisonPage ::
  "jstr \<Rightarrow> CompanyProfileData json_response \<Rightarrow> CompanyProfileData json_response \<Rightarrow> StockComparisonPageView" where
  "StockComparisonPage slug responseOne responseTwo =
     (let stockOneSymbol = js ''AAPL'';
          stockTwoSymbol = js ''TSLA''
      in \<lparr>headerPathname = js ''/en/stock-comparisons/'' @ slug,
          articleH1 = stockOneSymbol @ js '' vs. '' @ stockTwoSymbol @ js '': A Head-to-Head Stock Comparison'',
          articleIntro = js ''Here'' @ [0x2019] @ js ''s a clear look at '' @ stockOneSymbol @ js '' and '' @
            stockTwoSymbol @ js '', comparing key factors like performance, valuation metrics, dividends, and financial strength. It'' @
            [0x2019] @ js ''s built for investors or anyone curious to see how these two stocks match up.'',
          articleSections =
            [ExternalComponent (js ''PerformanceComparisonSection'') [stockOneSymbol, stockTwoSymbol],
             OverviewSection (CompanyOverviewSection stockOneSymbol stockTwoSymbol responseOne responseTwo),
             ExternalComponent (js ''ValuationMetricsComparisonSection'') [stockOneSymbol, stockTwoSymbol],
             ExternalComponent (js ''DividendComparisonSection'') [stockOneSymbol, stockTwoSymbol],
             ExternalComponent (js ''FinancialStrengthMetricsComparisonSection'') [stockOneSymbol, stockTwoSymbol]]\<rparr>)"

text \<open>The main column of the Chinese home page: the hero, the price chart section
  when it renders (a \<open>null\<close> component renders nothing), the calculator
  section.\<close>

definition HomePageMain ::
  "HistoricalPriceDataPoint json_response \<Rightarrow> HistoricalPriceDataPoint json_response \<Rightarrow> page_part list" where
  "HomePageMain responseOne responseTwo =
     [ExternalComponent (js ''HeroSection'') []] @
     (case StockComparisonSection responseOne responseTwo of
        None \<Rightarrow> []
      | Some v \<Rightarrow> [PriceChartSection v]) @
     [ExternalComponent (js ''CalculatorSection'') []]"

record HeroContent =
  heroHeading :: "jstr list"
  heroText :: jstr
  heroImageAlt :: jstr

definition HeroSection :: HeroContent where
  "HeroSection =
     \<lparr>heroHeading = [js ''Seek Returns.'', js ''Strategically.''],
      heroText = js ''Combining essential knowledge and practical tools for smarter investment decisions.'',
      heroImageAlt = js ''Seek returns strategically''\<rparr>"

record LogoLink =
  logoHref :: jstr
  logoAlt :: jstr

definition Logo :: LogoLink where
  "Logo = \<lparr>logoHref = js ''/en-US'', logoAlt = js ''Canny Trading logo''\<rparr>"

end
