(* ===== verification/Spec2Isabelle.thy ===== *)
theory Spec2Isabelle
  imports CompanyOverview DividendComparison Calculator TableIndex Pages
begin

text \<open>
  A verification library for the cannytrading-web site (JilongJia/cannytrading-web):
  a Next.js site whose logic is the text generated around market data. Stock
  comparison pages fetch two companies' figures from an HTTP API, classify each
  pair of figures and fill a sentence template per locale. Calculator pages
  validate two text inputs and compute a financial factor. An index page
  groups pages by initial letter. The rest of the sources is markup.

  \<^bold>\<open>How the parts interact.\<close> A comparison section (a React server component)
  fetches each stock's record, and either record missing short-circuits the
  section to a fixed message. Otherwise the section passes the numbers to
  pure commentary generators and places their strings, and a table of
  formatted values, into the article components. The generators call the
  JavaScript Number runtime (division with its infinities and NaN,
  comparisons, \<open>toFixed\<close>, \<open>toLocaleString\<close>). The calculator calls
  \<open>trim\<close> and \<open>parseFloat\<close> on its input strings. The pages compose the
  sections: the English comparison article places the overview section among
  four sections whose sources are not under \<open>src\<close>, and the Chinese home
  page places the price chart section, which renders nothing when a price
  fetch fails, between its hero and calculator sections. The table index
  page groups the pages of a section with \<open>reduce\<close> and sorts them with
  \<open>localeCompare\<close>.

  \<^bold>\<open>Theories and what they model.\<close>
  \<^item> \<open>Prelude\<close>: JavaScript strings as lists of UTF-16 code units
    (\<open>16 word list\<close>, so the Chinese templates are exact), ASCII literals
    lifted by \<open>js\<close>, the shapes of an API response (\<open>json_response\<close>:
    thrown fetch, \<open>null\<close>, error object, array) and \<open>xs[0]\<close>.
  \<^item> \<open>JsNumber\<close>: ECMAScript Numbers as \<open>Num real | PosInf | NegInf | NaN\<close>, with
    \<open>+ - * /\<close>, \<open><\<close>, \<open><=\<close>, \<open>===\<close>, \<open>Math.max/min/pow\<close>, \<open>Number.isNaN\<close>
    following the specification's case tables.
  \<^item> \<open>NumberFormat\<close>: \<open>Number.prototype.toFixed\<close> (\<open>to_fixed\<close>) and
    \<open>toLocaleString\<close> in the English locale (\<open>locale_number\<close>).
  \<^item> \<open>ParseFloat\<close>: \<open>String.prototype.trim\<close> (\<open>js_trim\<close>) and \<open>parseFloat\<close>
    (\<open>parse_float\<close>).
  \<^item> \<open>Markup\<close>: the article components as data (section, heading, paragraph,
    table with cells).
  \<^item> \<open>CompanyOverview\<close>: \<open>src/app/en/stock-comparisons/[slug]/components/CompanyOverviewSection.tsx\<close>.
    It holds the record \<open>CompanyProfileData\<close>, \<open>fetchCompanyProfileData\<close>,
    \<open>generateMarketCapComparisonCommentary\<close>, \<open>generateBetaComparisonCommentary\<close>,
    \<open>generateAdrCommentary\<close> (one definition per sentence template),
    the table rows and \<open>CompanyOverviewSection\<close>. It also states the
    spec's classify-then-render model (\<open>spec_classify\<close>, \<open>render_market_cap\<close>,
    \<open>render_beta\<close>) that the generators refine.
  \<^item> \<open>DividendComparison\<close>: \<open>src/app/zh/stock-comparisons/[slug]/components/DividendComparisonSection.tsx\<close>.
    The record \<open>DividendData\<close>, \<open>fetchDividendData\<close>, the category
    \<open>getDividendYieldCategory\<close> and its two constants,
    \<open>generateDividendYieldCommentary\<close> with one definition per Chinese template,
    the yield cell and \<open>DividendComparisonSection\<close>.
  \<^item> \<open>Calculator\<close>: \<open>src/app/en/calculators/[slug]/future-value-interest-factor-of-annuity-calculator/components/Calculator.tsx\<close>.
    The component's state (the two \<open>useState\<close> strings) as a record, the
    \<open>onChange\<close> handlers as a step function on events, the reachable states as
    an inductive predicate, the two validation chains, the factor, one render
    (\<open>Calculator\<close>) and the cards it shows.
  \<^item> \<open>TableIndex\<close>: \<open>src/app/en/tables/page.tsx\<close>. The \<open>reduce\<close> into a
    JavaScript object (\<open>group_step\<close>, \<open>groups\<close>: an association list in insertion
    order), \<open>Object.keys\<close> (\<open>object_keys\<close>, array-index keys first), the two
    stable sorts (\<open>table_index\<close>) and the rendered page (\<open>TableIndexPage\<close>).
    \<open>toUpperCase\<close> and \<open>localeCompare\<close> are parameters: any case mapping and
    any collation key into a linear order. \<open>table_index_spec\<close> is the abstract
    index the page refines.
  \<^item> \<open>PriceSeries\<close>: \<open>src/app/zh/components/StockComparisonSection.tsx\<close>.
    \<open>fetchPriceSeriesData\<close> (reverse and map to date and adjusted close) and
    \<open>StockComparisonSection\<close> with the data it passes to the chart.
  \<^item> \<open>Pages\<close>: \<open>src/app/en/stock-comparisons/[slug]/page.tsx\<close>
    (\<open>StockComparisonPage\<close>), \<open>src/app/zh/page.tsx\<close> (\<open>HomePageMain\<close>), and the
    content of \<open>src/app/en/components/HeroSection.tsx\<close> and
    \<open>src/app/components/en-US/content/page/header/Logo.tsx\<close>. Sections whose
    source is not under \<open>src\<close> are opaque parts named by their component.

  \<^bold>\<open>What the lemmas show.\<close> The ratio generators implement the spec's
  classifier everywhere except in the band \<open>[1/1.5, 0.67)\<close>. There the
  source's literal \<open>0.67\<close> breaks the mirror symmetry the spec requires (C1, C3,
  C4 for market caps, C6 for betas). The thresholds are strict (C2). A zero
  denominator prints "Infinity" (C5). A negative beta is reported as the
  higher one (C7), and equal betas, zero included, give the "similar" sentence
  (C8). The ADR note is empty exactly when neither stock is an ADR (C9), and
  the overview section's short-circuit and layout hold (C10, C11). The
  market-cap cells show any finite cap as \<open>toFixed(2)\<close> of the value in
  billions, with the currency (C12); the billions figure is \<open>toFixed(2)\<close> plus
  thousands separators and has exactly two decimals (C13, C14). A yield is
  "None" exactly when it is not positive, NaN counting as "Has", and the
  dividend commentary is total, so its empty fallback is dead code (C15). Its
  gap test is strict (C16), and the callout names the stock with the higher
  yield in either argument order (C17). With no dividends no percentage is
  printed (C18). For every yield the table and the text print different
  figures, the table reading the yield as a fraction and the text as a
  percentage (C19). The dividend section's short-circuit and layout hold (C20,
  C21). The calculator always shows exactly one card (C22). Its output is
  \<open>toFixed(4)\<close> of the annuity factor \<open>\<Sum>k<n. (1 + r/100)^k\<close> for every
  non-negative rate, so the zero-rate branch agrees with the formula (C23).
  Blank inputs are reported as missing (C24). The validation accepts any
  decimal literal followed by text (C25), and inputs read as infinite, which
  print "Infinity" or "NaN" (C26). The printed factor reads back within half
  a unit in the fourth decimal (C27). The table index puts every page in
  exactly one group (C28). Its groups are exactly the distinct initials, each
  holding that initial's pages (C29). Groups and pages are in collation order
  (C30). When the collation separates the letters, the index is the abstract
  one whatever order \<open>Object.keys\<close> gave (C31). Untitled pages form one
  section with an empty heading (C32). The price series is oldest first
  (C33), and the home chart section renders exactly when both responses are
  non-empty arrays (C34). The comparison page ignores its route parameter:
  every slug shows AAPL against TSLA (C35). A failed profile fetch degrades
  only the overview section of the page (C36). The home page always shows its
  hero and calculator sections, and the chart only with both series (C37).
  Supporting the components, the runtime theories prove that \<open>toFixed\<close>
  prints exactly the requested decimals (\<open>to_fixed_decimal_places\<close>) and that
  \<open>parseFloat\<close> reads \<open>toFixed\<close>'s output back within half a unit in the last
  place (\<open>to_fixed_parse_roundtrip\<close>).

  \<^bold>\<open>Modelling choices.\<close> Finite Numbers are exact reals: the rounding of double
  arithmetic and the sign of zero are not modelled. Literals such as \<open>0.67\<close>
  are their decimal values. \<open>parseFloat\<close> keeps the double range: it overflows to
  an infinity and underflows to zero. Number-to-string conversion of values of
  \<open>10^21\<close> and more prints the exact integer part. Nothing in the development
  needs fuel: the program's only iterations are \<open>map\<close>, \<open>filter\<close>, \<open>reduce\<close>,
  \<open>forEach\<close> and \<open>sort\<close> over finite arrays, modelled by structural recursion
  or library functions, so every definition is total and no termination
  property is stated; the one recursion not on structure
  (\<open>group_thousands\<close>, in the runtime model) terminates on the length of its
  argument.

  \<^bold>\<open>Not modelled.\<close> The HTTP calls, the API key and \<open>console.error\<close>: a
  fetch is its response value. React's printing of a bare Number and
  \<open>toLocaleDateString\<close> (table cells keep the number or the date string). The
  Unicode case mapping and the ICU collation behind \<open>toUpperCase\<close> and
  \<open>localeCompare\<close> (parameters of the table index). Components whose source
  is not under \<open>src\<close> (the chart, the forms, the other comparison sections):
  opaque parts of the pages. \<open>Footer\<close> and \<open>Article\<close> only wrap their children
  in one element, and page headers, sidebars, CSS classes and the inputs'
  \<open>min\<close>/\<open>max\<close>/\<open>step\<close> attributes are presentation. The calculator's
  input components (\<open>InputCard.NumberInput\<close>, \<open>InputCard.RangeInput\<close>) are
  not under \<open>src\<close>: the calculator lemmas hold for every pair of strings in
  its state, and which strings those components deliver is not modelled.
\<close>

section \<open>Properties across components\<close>

text \<open>C35. The comparison page ignores its route parameter except in the header's
  path: every \<open>/en/stock-comparisons/<slug>\<close> page is the same article, comparing
  AAPL with TSLA.\<close>

theorem stock_comparison_page_ignores_slug:
  "StockComparisonPage slug r1 r2 =
     (StockComparisonPage slug' r1 r2)\<lparr>headerPathname := js ''/en/stock-comparisons/'' @ slug\<rparr> \<and>
   articleH1 (StockComparisonPage slug r1 r2) = js ''AAPL vs. TSLA: A Head-to-Head Stock Comparison''"
  by (simp add: StockComparisonPage_def Let_def)

text \<open>C36. The overview section's short-circuit is local to it: when either
  profile fetch fails, the article still has all five sections, the overview
  being the unavailable message and the others unchanged.\<close>

theorem stock_comparison_page_overview_local:
  assumes "fetchCompanyProfileData r1 = None \<or> fetchCompanyProfileData r2 = None"
  shows "articleSections (StockComparisonPage slug r1 r2) =
           [ExternalComponent (js ''PerformanceComparisonSection'') [js ''AAPL'', js ''TSLA''],
            OverviewSection company_overview_unavailable,
            ExternalComponent (js ''ValuationMetricsComparisonSection'') [js ''AAPL'', js ''TSLA''],
            ExternalComponent (js ''DividendComparisonSection'') [js ''AAPL'', js ''TSLA''],
            ExternalComponent (js ''FinancialStrengthMetricsComparisonSection'') [js ''AAPL'', js ''TSLA'']]"
  using assms by (auto simp: StockComparisonPage_def CompanyOverviewSection_def Let_def split: option.split)

theorem stock_comparison_page_overview_local_witness:
  "(fetchCompanyProfileData FetchFailed = None \<or> fetchCompanyProfileData (JsonArray []) = None) \<and>
   articleSections (StockComparisonPage (js ''aapl-vs-tsla'') FetchFailed (JsonArray [])) =
     [ExternalComponent (js ''PerformanceComparisonSection'') [js ''AAPL'', js ''TSLA''],
      OverviewSection company_overview_unavailable,
      ExternalComponent (js ''ValuationMetricsComparisonSection'') [js ''AAPL'', js ''TSLA''],
      ExternalComponent (js ''DividendComparisonSection'') [js ''AAPL'', js ''TSLA''],
      ExternalComponent (js ''FinancialStrengthMetricsComparisonSection'') [js ''AAPL'', js ''TSLA'']]"
proof -
  have h: "fetchCompanyProfileData FetchFailed = None \<or> fetchCompanyProfileData (JsonArray []) = None"
    by simp
  from stock_comparison_page_overview_local [OF h, of "js ''aapl-vs-tsla''"] h show ?thesis by blast
qed

text \<open>C37. The home page's main column is always the hero, then the price chart
  section exactly when both price responses are non-empty arrays, then the
  calculator section: a failed price fetch hides only the chart.\<close>

theorem home_page_chart_optional:
  "HomePageMain r1 r2 =
     [ExternalComponent (js ''HeroSection'') []] @
     (if (\<exists>x xs. r1 = JsonArray (x # xs)) \<and> (\<exists>y ys. r2 = JsonArray (y # ys))
      then [PriceChartSection (the (StockComparisonSection r1 r2))] else []) @
     [ExternalComponent (js ''CalculatorSection'') []]"
  by (auto simp: HomePageMain_def StockComparisonSection_def fetchPriceSeriesData_Some_iff [symmetric]
           split: option.split)

end
